theory Spec2Isabelle
  imports Main "HOL-Library.Sublist"
begin

section \<open>JavaScript values used by the pages\<close>

text \<open>
  Strings are lists of code units (\<^typ>\<open>char\<close>, the 8-bit range).  The empty string is
  the only falsy string; \<open>null\<close> and \<open>undefined\<close> are \<^const>\<open>None\<close>.
\<close>

definition js_whitespace :: "char \<Rightarrow> bool" where
  "js_whitespace c =
     (c \<in> set [CHR '' '', CHR 0x09, CHR 0x0A, CHR 0x0B, CHR 0x0C, CHR 0x0D, CHR 0xA0])"

text \<open>\<open>String.prototype.trim\<close>: white space removed at both ends.\<close>

definition trim :: "string \<Rightarrow> string" where
  "trim s = rev (dropWhile js_whitespace (rev (dropWhile js_whitespace s)))"

text \<open>\<open>String.prototype.includes\<close>: the pattern occurs at some offset.\<close>

fun str_includes :: "string \<Rightarrow> string \<Rightarrow> bool" where
  "str_includes [] p = (p = [])"
| "str_includes (c # cs) p = (prefix p (c # cs) \<or> str_includes cs p)"

text \<open>\<open>a || b\<close> on a possibly absent string: the left operand unless it is falsy.\<close>

definition or_else :: "string option \<Rightarrow> string \<Rightarrow> string" where
  "or_else a b = (case a of None \<Rightarrow> b | Some s \<Rightarrow> if s = [] then b else s)"

text \<open>\<open>localStorage\<close>: \<open>getItem\<close> gives \<open>null\<close> for a key that was never stored.\<close>

type_synonym storage = "string \<rightharpoonup> string"

definition getItem :: "storage \<Rightarrow> string \<Rightarrow> string option" where
  "getItem localStorage k = localStorage k"

subsection \<open>Files, form bodies, requests and replies\<close>

record js_file =
  file_name :: string
  file_type :: string
  file_bytes :: "char list"

definition file_size :: "js_file \<Rightarrow> nat" where
  "file_size f = length (file_bytes f)"

datatype entry_value = Text string | Binary js_file

text \<open>
  A \<open>FormData\<close> object is its entry list; \<open>append\<close> adds one entry at the end and
  never replaces an entry of the same name.
\<close>

type_synonym form_data = "(string \<times> entry_value) list"

definition fd_append :: "form_data \<Rightarrow> string \<Rightarrow> entry_value \<Rightarrow> form_data" where
  "fd_append fd k v = fd @ [(k, v)]"

text \<open>
  The JSON body of the record-creation call.  \<open>parseFloat\<close> is not evaluated: the
  value is kept as the number that \<open>parseFloat\<close> gives for the text.
\<close>

datatype json_value = JString string | JNat nat | JParseFloat string

datatype body = NoBody | FormBody form_data | JsonBody "(string \<times> json_value) list"

text \<open>
  A request as handed to \<open>fetch\<close>.  \<open>params\<close> are the entries of the
  \<open>URLSearchParams\<close> object interpolated behind the \<open>?\<close> of the URL.
\<close>

record request =
  url :: string
  params :: "(string \<times> string) list"
  http_method :: string
  headers :: "(string \<times> string) list"
  body :: body

text \<open>
  What the awaited \<open>fetch\<close> and \<open>response.json()\<close> give: either one of them
  rejects (the \<open>catch\<close> block receives \<open>error.message\<close>), or the body parses.
  The parsed body carries the flag \<open>success\<close>, the optional \<open>message\<close> and, in
  \<open>members\<close>, the other members of the body that the page reads (for the two upload
  pages the member \<open>data\<close>).  Bodies are taken to have the shape the pages expect:
  a boolean flag, a string message, typed members.
\<close>

record 'd response =
  success :: bool
  resp_message :: "string option"
  members :: 'd

datatype 'd reply = Threw string | Parsed "'d response"

text \<open>
  The \<open>useState\<close> cells of a page.  The search pages call the last cell
  \<open>searchResults\<close>.
\<close>

record ('f, 'r) page =
  formData :: 'f
  loading :: bool
  message :: string
  responseData :: "'r option"

text \<open>The colours of the message box: the error palette or the success palette.\<close>

datatype tone = Informational | ErrorTone

section \<open>AddAIProduct\<close>

record product_fields =
  product_name :: string
  product_category :: string
  price :: string

record ai_form = product_fields +
  suggestion_questions :: string
  videos :: "js_file list"

record item =
  lesson_title :: string
  video_gcs :: string
  audio_gcs :: string
  text_gcs :: string
  pdf_gcs :: string
  vectors :: "string list option"

record course_data =
  product_id :: string
  number_of_videos :: nat
  total_vectors :: nat
  items :: "item list"

type_synonym ai_page = "(ai_form, course_data) page"

definition ai_initial_form :: ai_form where
  "ai_initial_form =
     \<lparr>product_name = '''', product_category = '''', price = '''',
      suggestion_questions = '''', videos = []\<rparr>"

text \<open>The four named inputs of the form; \<open>handleInputChange\<close> stores \<open>[name]: value\<close>.\<close>

datatype ai_input = Product_name | Product_category | Suggestion_questions | Price

definition AddAIProduct_handleInputChange :: "ai_input \<Rightarrow> string \<Rightarrow> ai_page \<Rightarrow> ai_page" where
  "AddAIProduct_handleInputChange name v st =
     st\<lparr>formData :=
          (case name of
             Product_name \<Rightarrow> (formData st)\<lparr>product_name := v\<rparr>
           | Product_category \<Rightarrow> (formData st)\<lparr>product_category := v\<rparr>
           | Suggestion_questions \<Rightarrow> (formData st)\<lparr>suggestion_questions := v\<rparr>
           | Price \<Rightarrow> (formData st)\<lparr>price := v\<rparr>)\<rparr>"

text \<open>\<open>handleVideosChange\<close>: \<open>Array.from(e.target.files)\<close> replaces the selection.\<close>

definition handleVideosChange :: "js_file list \<Rightarrow> ai_page \<Rightarrow> ai_page" where
  "handleVideosChange files st = st\<lparr>formData := (formData st)\<lparr>videos := files\<rparr>\<rparr>"

definition default_admin_id :: string where
  "default_admin_id = ''550e8400-e29b-41d4-a716-446655440000''"

definition default_admin_type :: string where
  "default_admin_type = ''super_admin''"

text \<open>The body built by \<open>handleSubmit\<close>: six text entries, then one entry per video.\<close>

definition AddAIProduct_submitData :: "storage \<Rightarrow> ai_form \<Rightarrow> form_data" where
  "AddAIProduct_submitData localStorage fd =
     (let adminId = or_else (getItem localStorage ''admin_id'') default_admin_id;
          adminType = or_else (getItem localStorage ''admin_type'') default_admin_type;
          submitData = [];
          submitData = fd_append submitData ''admin_id'' (Text adminId);
          submitData = fd_append submitData ''admin_type'' (Text adminType);
          submitData = fd_append submitData ''product_name'' (Text (product_name fd));
          submitData = fd_append submitData ''product_category'' (Text (product_category fd));
          submitData = fd_append submitData ''suggestion_questions'' (Text (suggestion_questions fd));
          submitData = fd_append submitData ''price'' (Text (price fd))
      in foldl (\<lambda>submitData video. fd_append submitData ''videos'' (Binary video))
           submitData (videos fd))"

definition AddAIProduct_request :: "storage \<Rightarrow> ai_form \<Rightarrow> request" where
  "AddAIProduct_request localStorage fd =
     \<lparr>url = ''http://127.0.0.1:8000/api/add-ai-train-product'', params = [],
      http_method = ''POST'', headers = [],
      body = FormBody (AddAIProduct_submitData localStorage fd)\<rparr>"

text \<open>
  \<open>handleSubmit\<close> of AddAIProduct.  The result is the state once \<open>finally\<close> has
  run, with the list of requests handed to \<open>fetch\<close>, in order.
\<close>

definition AddAIProduct_handleSubmit ::
  "storage \<Rightarrow> (request \<Rightarrow> course_data option reply) \<Rightarrow> ai_page \<Rightarrow> ai_page \<times> request list" where
  "AddAIProduct_handleSubmit localStorage fetch st =
     (let st = st\<lparr>loading := True, message := '''', responseData := None\<rparr>;
          req = AddAIProduct_request localStorage (formData st);
          st = st\<lparr>message := ''Processing AI training product... This may take several minutes.''\<rparr>
      in case fetch req of
           Threw err \<Rightarrow>
             (st\<lparr>message := ''Network error: '' @ err, loading := False\<rparr>, [req])
         | Parsed d \<Rightarrow>
             if success d then
               (st\<lparr>message := ''AI training product created and processed successfully!'',
                   responseData := members d, formData := ai_initial_form, loading := False\<rparr>,
                [req])
             else
               (st\<lparr>message := ''Error: '' @ or_else (resp_message d) ''Unknown error occurred'',
                   loading := False\<rparr>,
                [req]))"

text \<open>The message box of AddAIProduct tests the message for two substrings.\<close>

definition AddAIProduct_tone :: "string \<Rightarrow> tone" where
  "AddAIProduct_tone m =
     (if str_includes m ''Error'' \<or> str_includes m ''error'' then ErrorTone else Informational)"

text \<open>\<open>FormData.getAll\<close>: the values stored under a name, in body order.\<close>

definition getAll :: "form_data \<Rightarrow> string \<Rightarrow> entry_value list" where
  "getAll fd k = map snd (filter (\<lambda>e. fst e = k) fd)"

section \<open>UploadDigitalProduct\<close>

record digital_form = product_fields +
  product_description :: string
  product_file :: "js_file option"

type_synonym 'd digital_page = "(digital_form, 'd) page"

definition digital_initial_form :: digital_form where
  "digital_initial_form =
     \<lparr>product_name = '''', product_category = '''', price = '''',
      product_description = '''', product_file = None\<rparr>"

text \<open>\<open>handleFileChange\<close>: \<open>e.target.files[0]\<close> is stored only when there is one.\<close>

definition handleFileChange :: "js_file list \<Rightarrow> 'd digital_page \<Rightarrow> 'd digital_page" where
  "handleFileChange files st =
     (case files of
        [] \<Rightarrow> st
      | f # _ \<Rightarrow> st\<lparr>formData := (formData st)\<lparr>product_file := Some f\<rparr>\<rparr>)"

definition UploadDigitalProduct_submitData :: "storage \<Rightarrow> digital_form \<Rightarrow> js_file \<Rightarrow> form_data" where
  "UploadDigitalProduct_submitData localStorage fd f =
     (let adminId = or_else (getItem localStorage ''admin_id'') default_admin_id;
          adminType = or_else (getItem localStorage ''admin_type'') default_admin_type;
          submitData = [];
          submitData = fd_append submitData ''admin_id'' (Text adminId);
          submitData = fd_append submitData ''admin_type'' (Text adminType);
          submitData = fd_append submitData ''product_name'' (Text (product_name fd));
          submitData = fd_append submitData ''product_category'' (Text (product_category fd));
          submitData = fd_append submitData ''product_description'' (Text (product_description fd));
          submitData = fd_append submitData ''price'' (Text (price fd));
          submitData = fd_append submitData ''product_file'' (Binary f)
      in submitData)"

definition UploadDigitalProduct_request :: "storage \<Rightarrow> digital_form \<Rightarrow> js_file \<Rightarrow> request" where
  "UploadDigitalProduct_request localStorage fd f =
     \<lparr>url = ''http://127.0.0.1:8000/api/add-digital-product'', params = [],
      http_method = ''POST'', headers = [],
      body = FormBody (UploadDigitalProduct_submitData localStorage fd f)\<rparr>"

text \<open>
  \<open>handleSubmit\<close> of UploadDigitalProduct.  Without a selected file it returns before
  any request is built; \<open>finally\<close> still clears \<open>loading\<close>.
\<close>

definition UploadDigitalProduct_handleSubmit ::
  "storage \<Rightarrow> (request \<Rightarrow> 'd option reply) \<Rightarrow> 'd digital_page \<Rightarrow> 'd digital_page \<times> request list" where
  "UploadDigitalProduct_handleSubmit localStorage fetch st =
     (let st = st\<lparr>loading := True, message := '''', responseData := None\<rparr>
      in case product_file (formData st) of
           None \<Rightarrow>
             (st\<lparr>message := ''Error: Please select a product file'', loading := False\<rparr>, [])
         | Some f \<Rightarrow>
             (let req = UploadDigitalProduct_request localStorage (formData st) f;
                  st = st\<lparr>message := ''Uploading digital product...''\<rparr>
              in case fetch req of
                   Threw err \<Rightarrow>
                     (st\<lparr>message := ''Network error: '' @ err, loading := False\<rparr>, [req])
                 | Parsed d \<Rightarrow>
                     if success d then
                       (st\<lparr>message := ''Digital product uploaded successfully!'',
                           responseData := members d, formData := digital_initial_form,
                           loading := False\<rparr>,
                        [req])
                     else
                       (st\<lparr>message :=
                             ''Error: '' @ or_else (resp_message d) ''Unknown error occurred'',
                           loading := False\<rparr>,
                        [req])))"

text \<open>The message box of UploadDigitalProduct tests the same two substrings.\<close>

definition UploadDigitalProduct_tone :: "string \<Rightarrow> tone" where
  "UploadDigitalProduct_tone m =
     (if str_includes m ''Error'' \<or> str_includes m ''error'' then ErrorTone else Informational)"

section \<open>AddProduct (AdminPanel.jsx): the two-call course flow\<close>

text \<open>
  The \<open>useState\<close> cells of AddProduct.  No panel of the sources mounts this
  component; it is the only place where a course is created by two calls.
\<close>

record add_product =
  ap_productType :: string
  ap_name :: string
  ap_category :: string
  ap_price :: string
  ap_description :: string
  ap_file :: "js_file option"
  ap_videos :: "js_file list"
  ap_loading :: bool
  ap_message :: string

text \<open>
  The members read from the two bodies: \<open>product_id\<close> of the first, \<open>data\<close> of the
  second.  The members of \<open>data\<close> are kept as the text a template literal prints.
\<close>

record processing_data =
  course_id :: string
  successful_videos :: string
  total_videos :: string
  embeddings_created :: string
  root_directory :: string

record ap_members =
  created_product_id :: "string option"
  processing :: "processing_data option"

text \<open>A template literal prints \<open>null\<close> and \<open>undefined\<close> by name.\<close>

definition template :: "string option \<Rightarrow> string \<Rightarrow> string" where
  "template v absent = (case v of None \<Rightarrow> absent | Some s \<Rightarrow> s)"

text \<open>
  Reading a member of \<open>undefined\<close> throws a TypeError inside the \<open>try\<close> block; this
  is the text V8 gives it.
\<close>

definition undefined_read :: "string \<Rightarrow> string" where
  "undefined_read m = ''Cannot read properties of undefined (reading '' @ [CHR 0x27] @ m @ [CHR 0x27] @ '')''"

definition AddProduct_createRequest :: "storage \<Rightarrow> add_product \<Rightarrow> request" where
  "AddProduct_createRequest localStorage st =
     (let token = getItem localStorage ''token''
      in \<lparr>url = ''http://localhost:5000/api/products/ai-training'', params = [],
          http_method = ''POST'',
          headers = [(''Authorization'', ''Bearer '' @ template token ''null''),
                     (''Content-Type'', ''application/json'')],
          body = JsonBody
            [(''product_name'', JString (ap_name st)),
             (''product_category'', JString (ap_category st)),
             (''price'', JParseFloat (ap_price st)),
             (''number_of_videos'', JNat (length (ap_videos st)))]\<rparr>)"

definition AddProduct_processRequest :: "storage \<Rightarrow> add_product \<Rightarrow> string option \<Rightarrow> request" where
  "AddProduct_processRequest localStorage st productId =
     (let token = getItem localStorage ''token'';
          formData = [];
          formData = fd_append formData ''product_id'' (Text (template productId ''undefined''));
          formData = fd_append formData ''product_name'' (Text (ap_name st));
          formData = foldl (\<lambda>formData video. fd_append formData ''videos'' (Binary video))
                       formData (ap_videos st)
      in \<lparr>url = ''http://127.0.0.1:8000/api/ai-processing/process-ai-product'', params = [],
          http_method = ''POST'',
          headers = [(''Authorization'', ''Bearer '' @ template token ''null'')],
          body = FormBody formData\<rparr>)"

definition AddProduct_successMessage :: "processing_data \<Rightarrow> string" where
  "AddProduct_successMessage d =
     ''AI training product created and processed successfully! '' @ [CHR 0x0A] @
     ''            Course ID: '' @ course_id d @ [CHR 0x0A] @
     ''            Videos processed: '' @ successful_videos d @ ''/'' @ total_videos d @ [CHR 0x0A] @
     ''            Embeddings created: '' @ embeddings_created d @ [CHR 0x0A] @
     ''            Root directory: '' @ root_directory d"

text \<open>
  \<open>handleAISubmit\<close>: the JSON call first; the multipart call is built and issued only
  inside \<open>if (productData.success)\<close>.  One \<open>catch\<close> block serves both calls.
\<close>

definition handleAISubmit ::
  "storage \<Rightarrow> (request \<Rightarrow> ap_members reply) \<Rightarrow> add_product \<Rightarrow> add_product \<times> request list" where
  "handleAISubmit localStorage fetch st =
     (let st = st\<lparr>ap_loading := True, ap_message := ''''\<rparr>;
          req1 = AddProduct_createRequest localStorage st
      in case fetch req1 of
           Threw err \<Rightarrow>
             (st\<lparr>ap_message := ''Network error: '' @ err, ap_loading := False\<rparr>, [req1])
         | Parsed productData \<Rightarrow>
             if success productData then
               (let productId = created_product_id (members productData);
                    req2 = AddProduct_processRequest localStorage st productId;
                    st = st\<lparr>ap_message :=
                             ''Product created! Processing videos through AI pipeline...''\<rparr>
                in case fetch req2 of
                     Threw err \<Rightarrow>
                       (st\<lparr>ap_message := ''Network error: '' @ err, ap_loading := False\<rparr>,
                        [req1, req2])
                   | Parsed aiData \<Rightarrow>
                       if success aiData then
                         (case processing (members aiData) of
                            None \<Rightarrow>
                              (st\<lparr>ap_message := ''Network error: '' @ undefined_read ''course_id'',
                                  ap_loading := False\<rparr>,
                               [req1, req2])
                          | Some d \<Rightarrow>
                              (st\<lparr>ap_message := AddProduct_successMessage d,
                                  ap_name := '''', ap_category := '''', ap_price := '''',
                                  ap_videos := [], ap_productType := '''',
                                  ap_loading := False\<rparr>,
                               [req1, req2]))
                       else
                         (st\<lparr>ap_message :=
                               ''Product created but AI processing failed: ''
                                 @ template (resp_message aiData) ''undefined'',
                             ap_loading := False\<rparr>,
                          [req1, req2]))
             else
               (st\<lparr>ap_message :=
                     ''Error creating product: '' @ template (resp_message productData) ''undefined'',
                   ap_loading := False\<rparr>,
                [req1]))"

text \<open>
  The message box of AddProduct tests \<open>Error\<close> and \<open>failed\<close>, where the other pages
  test \<open>Error\<close> and \<open>error\<close>.
\<close>

definition AddProduct_tone :: "string \<Rightarrow> tone" where
  "AddProduct_tone m =
     (if str_includes m ''Error'' \<or> str_includes m ''failed'' then ErrorTone else Informational)"

text \<open>A request is metadata only when its body holds no file.\<close>

fun is_binary :: "entry_value \<Rightarrow> bool" where
  "is_binary (Binary f) = True"
| "is_binary (Text s) = False"

fun carries_assets :: "body \<Rightarrow> bool" where
  "carries_assets (FormBody fd) = list_ex (\<lambda>e. is_binary (snd e)) fd"
| "carries_assets (JsonBody js) = False"
| "carries_assets NoBody = False"

section \<open>The multipart body on the wire\<close>

text \<open>
  \<open>fetch\<close> sends a \<open>FormData\<close> body as \<open>multipart/form-data\<close>, with the bytes that
  the encoding algorithm of the HTML standard prescribes.  Every entry becomes a part: a
  line of two dashes and the boundary, the header lines, an empty line and the content,
  each ended by CR LF; a line of two dashes, the boundary and two dashes closes the
  body.  The boundary is chosen by the browser and is a parameter here.
\<close>

definition CRLF :: string where
  "CRLF = [CHR 0x0D, CHR 0x0A]"

text \<open>
  In a name and in a text value every line break, be it a CR, a LF or the pair, is
  written as CR LF.
\<close>

fun normalize_newlines :: "string \<Rightarrow> string" where
  "normalize_newlines [] = []"
| "normalize_newlines [c] = (if c = CHR 0x0D \<or> c = CHR 0x0A then CRLF else [c])"
| "normalize_newlines (c # d # cs) =
     (if c = CHR 0x0D \<and> d = CHR 0x0A then CRLF @ normalize_newlines cs
      else if c = CHR 0x0D \<or> c = CHR 0x0A then CRLF @ normalize_newlines (d # cs)
      else c # normalize_newlines (d # cs))"

text \<open>
  Texts are written in UTF-8.  The code units of this model are below 256, so a code
  unit takes one byte, or two from 128 on.
\<close>

definition utf8_char :: "char \<Rightarrow> string" where
  "utf8_char c =
     (let n = of_char c :: nat
      in if n < 128 then [c] else [char_of (192 + n div 64), char_of (128 + n mod 64)])"

definition utf8 :: "string \<Rightarrow> string" where
  "utf8 s = concat (map utf8_char s)"

text \<open>In a name and in a file name LF, CR and the double quote are written as escapes.\<close>

definition esc :: "string \<Rightarrow> string" where
  "esc s =
     concat (map (\<lambda>c. if c = CHR 0x0A then ''%0A''
                      else if c = CHR 0x0D then ''%0D''
                      else if c = CHR 0x22 then ''%22'' else [c]) s)"

text \<open>
  The type of a \<open>File\<close> is a text of printable ASCII characters, or empty; a file
  without a type is sent as \<open>application/octet-stream\<close>.
\<close>

definition printable :: "char \<Rightarrow> bool" where
  "printable c = (32 \<le> (of_char c :: nat) \<and> (of_char c :: nat) \<le> 126)"

definition content_type :: "js_file \<Rightarrow> string" where
  "content_type f =
     (if file_type f = [] \<or> \<not> list_all printable (file_type f) then ''application/octet-stream''
      else file_type f)"

definition field_name :: "string \<Rightarrow> string" where
  "field_name k = esc (utf8 (normalize_newlines k))"

definition disposition :: "string \<Rightarrow> string" where
  "disposition k =
     ''Content-Disposition: form-data; name='' @ [CHR 0x22]
       @ field_name k @ [CHR 0x22]"

text \<open>The header lines of a part, and its content.\<close>

fun part_head :: "string \<times> entry_value \<Rightarrow> string list" where
  "part_head (k, Text v) = [disposition k]"
| "part_head (k, Binary f) =
     [disposition k @ ''; filename='' @ [CHR 0x22] @ esc (utf8 (file_name f)) @ [CHR 0x22],
      ''Content-Type: '' @ content_type f]"

fun part_body :: "string \<times> entry_value \<Rightarrow> string" where
  "part_body (k, Text v) = utf8 (normalize_newlines v)"
| "part_body (k, Binary f) = file_bytes f"

definition encode_part :: "string \<times> entry_value \<Rightarrow> string" where
  "encode_part e = concat (map (\<lambda>h. h @ CRLF) (part_head e)) @ CRLF @ part_body e"

definition multipart_encode :: "string \<Rightarrow> form_data \<Rightarrow> string" where
  "multipart_encode B fd =
     concat (map (\<lambda>e. ''--'' @ B @ CRLF @ encode_part e @ CRLF) fd) @ ''--'' @ B @ ''--'' @ CRLF"

section \<open>Numbers of the search pages\<close>

text \<open>
  The numbers the search pages handle are integer-valued doubles, the infinities and
  \<open>NaN\<close>: the result of \<open>parseInt\<close> and the count \<open>total_results\<close>.  \<open>Num i\<close> is the
  double of value \<open>i\<close>; \<open>Infinite True\<close> is the negative infinity.
\<close>

datatype js_number = NaN | Infinite bool | Num int

function string_of_nat :: "nat \<Rightarrow> string" where
  "string_of_nat k =
     (if k < 10 then [''0123456789'' ! k]
      else string_of_nat (k div 10) @ [''0123456789'' ! (k mod 10)])"
  by pat_completeness auto
termination
  by (relation "measure id") auto

declare string_of_nat.simps [simp del]

definition string_of_int :: "int \<Rightarrow> string" where
  "string_of_int i = (if i < 0 then ''-'' @ string_of_nat (nat (- i)) else string_of_nat (nat i))"

function bit_length :: "nat \<Rightarrow> nat" where
  "bit_length m = (if m = 0 then 0 else Suc (bit_length (m div 2)))"
  by pat_completeness auto
termination
  by (relation "measure id") auto

declare bit_length.simps [simp del]

text \<open>
  The Number value of a natural number: the nearest double, ties to the even
  significand of 53 bits; \<open>None\<close> when it rounds beyond the largest double.
\<close>

definition round_to_double :: "nat \<Rightarrow> nat option" where
  "round_to_double m =
     (if m < 2 ^ 53 then Some m
      else
        (let e = bit_length m - 53;
             q = m div 2 ^ e;
             r = m mod 2 ^ e;
             half = 2 ^ (e - 1);
             q = (if half < r \<or> (r = half \<and> odd q) then q + 1 else q);
             v = q * 2 ^ e
         in if 2 ^ 1024 \<le> v then None else Some v))"

text \<open>
  The Number for a mathematical integer, as \<open>parseInt\<close> and \<open>JSON.parse\<close> produce it.
\<close>

definition number_of_int :: "int \<Rightarrow> js_number" where
  "number_of_int i =
     (case round_to_double (nat \<bar>i\<bar>) of
        None \<Rightarrow> Infinite (i < 0)
      | Some v \<Rightarrow> Num (if i < 0 then - int v else int v))"

definition digit_value :: "nat \<Rightarrow> char \<Rightarrow> nat option" where
  "digit_value radix c =
     (let k = of_char c :: nat;
          v = (if 48 \<le> k \<and> k \<le> 57 then Some (k - 48)
               else if 97 \<le> k \<and> k \<le> 122 then Some (k - 87)
               else if 65 \<le> k \<and> k \<le> 90 then Some (k - 55)
               else None)
      in case v of None \<Rightarrow> None | Some d \<Rightarrow> if d < radix then Some d else None)"

fun digits_value :: "nat \<Rightarrow> nat \<Rightarrow> string \<Rightarrow> nat" where
  "digits_value radix acc [] = acc"
| "digits_value radix acc (c # cs) =
     (case digit_value radix c of
        None \<Rightarrow> acc
      | Some d \<Rightarrow> digits_value radix (acc * radix + d) cs)"

text \<open>
  \<open>parseInt(string)\<close> without a radix: leading white space and one sign are skipped, a
  prefix \<open>0x\<close> selects radix 16, the longest run of digits is read, and no digit at all
  gives \<open>NaN\<close>.  The integer read is rounded to a double.  (Beyond 20 significant
  digits the language lets an implementation round from an approximation; the exact
  rounding is taken here.)
\<close>

definition parseInt :: "string \<Rightarrow> js_number" where
  "parseInt inputString =
     (let s = dropWhile js_whitespace inputString;
          negative = (take 1 s = ''-'');
          s = (if take 1 s = ''-'' \<or> take 1 s = ''+'' then drop 1 s else s);
          radix = (if take 2 s = ''0x'' \<or> take 2 s = ''0X'' then 16 else 10);
          s = (if radix = 16 then drop 2 s else s);
          z = takeWhile (\<lambda>c. digit_value radix c \<noteq> None) s
      in if z = [] then NaN
         else number_of_int ((if negative then - 1 else 1) * int (digits_value radix 0 z)))"

text \<open>
  The digits of a double \<open>x\<close> of at least \<open>2^53\<close>: the least number \<open>k\<close> of digits,
  tried in the order of the list, for which some \<open>c\<close> of \<open>k\<close> digits gives, with
  \<open>e\<close> zeros appended, a number that rounds to \<open>x\<close>; of two such \<open>c\<close> the one
  nearer to \<open>x\<close>, the even one when they are equally near.
\<close>

fun shortest_digits :: "nat \<Rightarrow> nat list \<Rightarrow> nat \<times> nat" where
  "shortest_digits x [] = (x, 0)"
| "shortest_digits x (k # ks) =
     (let nd = length (string_of_nat x)
      in if nd < k then (x, 0)
         else
           (let e = nd - k;
                lo = x div 10 ^ e;
                hi = lo + 1;
                lo_ok = (round_to_double (lo * 10 ^ e) = Some x);
                hi_ok = (round_to_double (hi * 10 ^ e) = Some x)
            in if lo_ok \<and> hi_ok then
                 (if x - lo * 10 ^ e < hi * 10 ^ e - x then (lo, e)
                  else if hi * 10 ^ e - x < x - lo * 10 ^ e then (hi, e)
                  else if even lo then (lo, e) else (hi, e))
               else if lo_ok then (lo, e)
               else if hi_ok then (hi, e)
               else shortest_digits x ks))"

definition strip_zeros :: "string \<Rightarrow> string" where
  "strip_zeros s = rev (dropWhile (\<lambda>c. c = CHR ''0'') (rev s))"

text \<open>
  The text of such a double: its digits followed by zeros up to 21 digits in all,
  beyond that the exponent form, \<open>1.2345678901234568e+28\<close>.
\<close>

definition print_double :: "nat \<Rightarrow> string" where
  "print_double x =
     (case shortest_digits x [1..<18] of
        (c, e) \<Rightarrow>
          (let s = strip_zeros (string_of_nat c);
               n = length (string_of_nat (c * 10 ^ e));
               k = length s
           in if n \<le> 21 then s @ replicate (n - k) (CHR ''0'')
              else (if k = 1 then s else take 1 s @ ''.'' @ drop 1 s)
                   @ ''e+'' @ string_of_nat (n - 1)))"

text \<open>
  \<open>Number.prototype.toString\<close>, and the printing of a number in a template literal.
  Below \<open>2^53\<close> the digits of a double are those of the integer.  A \<open>Num\<close> that is not
  a double is printed as the double nearest to it.
\<close>

definition toString :: "js_number \<Rightarrow> string" where
  "toString x =
     (case x of
        NaN \<Rightarrow> ''NaN''
      | Infinite negative \<Rightarrow> (if negative then ''-Infinity'' else ''Infinity'')
      | Num i \<Rightarrow>
          (case round_to_double (nat \<bar>i\<bar>) of
             None \<Rightarrow> (if i < 0 then ''-Infinity'' else ''Infinity'')
           | Some v \<Rightarrow>
               (if i < 0 then ''-'' else '''')
               @ (if v < 2 ^ 53 then string_of_nat v else print_double v)))"

text \<open>The characters a printed number can hold, and those it can end in.\<close>

definition digit_chars :: "char set" where
  "digit_chars = set ''0123456789''"

definition number_chars :: "char set" where
  "number_chars = set ''0123456789-.e+NaInfity''"

definition final_chars :: "char set" where
  "final_chars = set ''0123456789Ny''"

section \<open>The search pages\<close>

text \<open>
  The members of a search body.  \<open>results\<close> may be missing, which both
  \<open>renderResults\<close> test for.
\<close>

record 'r search_members =
  total_results :: int
  query :: string
  results :: "'r list option"

text \<open>One rendered result: its React key, the rank shown behind \<open>#\<close>, the result.\<close>

record 'r result_card =
  card_key :: nat
  card_rank :: nat
  card_result :: 'r

subsection \<open>SearchDigitalProduct\<close>

record sd_form =
  searchQuery :: string
  numResults :: js_number

type_synonym 'r sd_page = "(sd_form, 'r search_members response) page"

definition sd_initial :: "'r sd_page" where
  "sd_initial =
     \<lparr>formData = \<lparr>searchQuery = '''', numResults = Num 5\<rparr>,
      loading = False, message = '''', responseData = None\<rparr>"

text \<open>The two \<open>onChange\<close> handlers of the inputs.\<close>

definition setSearchQuery :: "string \<Rightarrow> 'r sd_page \<Rightarrow> 'r sd_page" where
  "setSearchQuery v st = st\<lparr>formData := (formData st)\<lparr>searchQuery := v\<rparr>\<rparr>"

definition numResults_onChange :: "string \<Rightarrow> 'r sd_page \<Rightarrow> 'r sd_page" where
  "numResults_onChange v st = st\<lparr>formData := (formData st)\<lparr>numResults := parseInt v\<rparr>\<rparr>"

definition SearchDigitalProduct_request :: "sd_form \<Rightarrow> request" where
  "SearchDigitalProduct_request fd =
     \<lparr>url = ''http://127.0.0.1:8000/api/search-digital-products'',
      params = [(''query'', searchQuery fd), (''n'', toString (numResults fd))],
      http_method = ''GET'', headers = [(''Content-Type'', ''application/json'')],
      body = NoBody\<rparr>"

definition handleSearch ::
  "(request \<Rightarrow> 'r search_members reply) \<Rightarrow> 'r sd_page \<Rightarrow> 'r sd_page \<times> request list" where
  "handleSearch fetch st =
     (let st = st\<lparr>loading := True, message := '''', responseData := None\<rparr>
      in if trim (searchQuery (formData st)) = [] then
           (st\<lparr>message := ''Error: Please enter a search query'', loading := False\<rparr>, [])
         else
           (let req = SearchDigitalProduct_request (formData st)
            in case fetch req of
                 Threw err \<Rightarrow>
                   (st\<lparr>message := ''Network error: '' @ err, responseData := None,
                       loading := False\<rparr>,
                    [req])
               | Parsed d \<Rightarrow>
                   if success d then
                     (st\<lparr>message := ''Found '' @ toString (number_of_int (total_results (members d)))
                              @ '' digital products matching your search'',
                         responseData := Some d, loading := False\<rparr>,
                      [req])
                   else
                     (st\<lparr>message := ''Error: '' @ or_else (resp_message d) ''Search failed'',
                         responseData := None, loading := False\<rparr>,
                      [req])))"

text \<open>The class of the message box of SearchDigitalProduct: one substring is tested.\<close>

definition SearchDigitalProduct_tone :: "string \<Rightarrow> tone" where
  "SearchDigitalProduct_tone m = (if str_includes m ''Error'' then ErrorTone else Informational)"

definition SearchDigitalProduct_renderResults :: "'r sd_page \<Rightarrow> 'r result_card list option" where
  "SearchDigitalProduct_renderResults st =
     (case responseData st of
        None \<Rightarrow> None
      | Some searchResults \<Rightarrow>
          (case results (members searchResults) of
             None \<Rightarrow> None
           | Some rs \<Rightarrow>
               if length rs = 0 then None
               else Some (map (\<lambda>(index, result).
                                 \<lparr>card_key = index, card_rank = index + 1, card_result = result\<rparr>)
                            (enumerate 0 rs))))"

subsection \<open>VectorSearch\<close>

text \<open>
  The cell \<open>n\<close> starts as the number 5 and holds the text of the input after the
  first change; \<open>toString\<close> leaves a string as it is, so it is kept as its text.
\<close>

record vs_form =
  question :: string
  product_ids :: string
  n_value :: string

type_synonym 'r vs_page = "(vs_form, 'r search_members response) page"

definition vs_initial :: "'r vs_page" where
  "vs_initial =
     \<lparr>formData = \<lparr>question = '''', product_ids = '''', n_value = ''5''\<rparr>,
      loading = False, message = '''', responseData = None\<rparr>"

datatype vs_input = Question | Product_ids | N_results

definition VectorSearch_handleInputChange :: "vs_input \<Rightarrow> string \<Rightarrow> 'r vs_page \<Rightarrow> 'r vs_page" where
  "VectorSearch_handleInputChange name v st =
     st\<lparr>formData :=
          (case name of
             Question \<Rightarrow> (formData st)\<lparr>question := v\<rparr>
           | Product_ids \<Rightarrow> (formData st)\<lparr>product_ids := v\<rparr>
           | N_results \<Rightarrow> (formData st)\<lparr>n_value := v\<rparr>)\<rparr>"

definition VectorSearch_request :: "vs_form \<Rightarrow> request" where
  "VectorSearch_request fd =
     \<lparr>url = ''http://127.0.0.1:8000/api/search-vectors'',
      params = [(''question'', question fd), (''product_ids'', product_ids fd),
                (''n'', n_value fd)],
      http_method = ''GET'', headers = [(''Content-Type'', ''application/json'')],
      body = NoBody\<rparr>"

definition VectorSearch_handleSubmit ::
  "(request \<Rightarrow> 'r search_members reply) \<Rightarrow> 'r vs_page \<Rightarrow> 'r vs_page \<times> request list" where
  "VectorSearch_handleSubmit fetch st =
     (let st = st\<lparr>loading := True, message := '''', responseData := None\<rparr>
      in if trim (question (formData st)) = [] then
           (st\<lparr>message := ''Error: Please enter a search question'', loading := False\<rparr>, [])
         else if trim (product_ids (formData st)) = [] then
           (st\<lparr>message := ''Error: Please enter at least one product ID'', loading := False\<rparr>, [])
         else
           (let req = VectorSearch_request (formData st)
            in case fetch req of
                 Threw err \<Rightarrow>
                   (st\<lparr>message := ''Network error: '' @ err, loading := False\<rparr>, [req])
               | Parsed d \<Rightarrow>
                   if success d then
                     (st\<lparr>message := ''Found '' @ toString (number_of_int (total_results (members d)))
                              @ '' results for your search'',
                         responseData := Some d, loading := False\<rparr>,
                      [req])
                   else
                     (st\<lparr>message := ''Error: '' @ or_else (resp_message d) ''Search failed'',
                         loading := False\<rparr>,
                      [req])))"

definition VectorSearch_renderResults :: "'r vs_page \<Rightarrow> 'r result_card list option" where
  "VectorSearch_renderResults st =
     (case responseData st of
        None \<Rightarrow> None
      | Some searchResults \<Rightarrow>
          (case results (members searchResults) of
             None \<Rightarrow> None
           | Some rs \<Rightarrow>
               Some (map (\<lambda>(index, result).
                            \<lparr>card_key = index, card_rank = index + 1, card_result = result\<rparr>)
                       (enumerate 0 rs))))"

text \<open>
  What the number inputs of the two search pages declare (\<open>min="1" max="50"\<close>, and
  \<open>required\<close> on the one of VectorSearch only), and the check the browser makes on an
  empty value before it lets the form submit: a value is missing only where it is
  required.  The range is checked for a value that is a number, not for an empty one.
\<close>

record number_input =
  input_min :: int
  input_max :: int
  input_required :: bool

definition numResults_input :: number_input where
  "numResults_input = \<lparr>input_min = 1, input_max = 50, input_required = False\<rparr>"

definition n_input :: number_input where
  "n_input = \<lparr>input_min = 1, input_max = 50, input_required = True\<rparr>"

definition value_missing :: "number_input \<Rightarrow> string \<Rightarrow> bool" where
  "value_missing inp v = (input_required inp \<and> v = [])"

text \<open>The message box of VectorSearch tests two substrings.\<close>

definition VectorSearch_tone :: "string \<Rightarrow> tone" where
  "VectorSearch_tone m =
     (if str_includes m ''Error'' \<or> str_includes m ''error'' then ErrorTone else Informational)"

section \<open>Outcomes of a submission\<close>

text \<open>
  The branch in which a \<open>handleSubmit\<close> ends: the success branch, or one of the
  branches that report a failure (no file selected, a falsy flag, a rejected call).
\<close>

datatype overall_status = Succeeded | Failed

definition reply_status :: "'d reply \<Rightarrow> overall_status" where
  "reply_status r =
     (case r of Threw err \<Rightarrow> Failed | Parsed d \<Rightarrow> if success d then Succeeded else Failed)"

definition AddAIProduct_status ::
  "storage \<Rightarrow> (request \<Rightarrow> course_data option reply) \<Rightarrow> ai_page \<Rightarrow> overall_status" where
  "AddAIProduct_status localStorage fetch st =
     reply_status (fetch (AddAIProduct_request localStorage (formData st)))"

definition UploadDigitalProduct_status ::
  "storage \<Rightarrow> (request \<Rightarrow> 'd option reply) \<Rightarrow> 'd digital_page \<Rightarrow> overall_status" where
  "UploadDigitalProduct_status localStorage fetch st =
     (case product_file (formData st) of
        None \<Rightarrow> Failed
      | Some f \<Rightarrow> reply_status (fetch (UploadDigitalProduct_request localStorage (formData st) f)))"

text \<open>
  The branch in which \<open>handleAISubmit\<close> ends: the success branch is the one that resets
  the form, reached when both bodies parse with a truthy flag and the second one holds
  \<open>data\<close>.
\<close>

definition AddProduct_status ::
  "storage \<Rightarrow> (request \<Rightarrow> ap_members reply) \<Rightarrow> add_product \<Rightarrow> overall_status" where
  "AddProduct_status localStorage fetch st =
     (let st = st\<lparr>ap_loading := True, ap_message := ''''\<rparr>
      in case fetch (AddProduct_createRequest localStorage st) of
           Threw err \<Rightarrow> Failed
         | Parsed productData \<Rightarrow>
             if success productData then
               (case fetch (AddProduct_processRequest localStorage st
                              (created_product_id (members productData))) of
                  Threw err \<Rightarrow> Failed
                | Parsed aiData \<Rightarrow>
                    if success aiData \<and> processing (members aiData) \<noteq> None then Succeeded
                    else Failed)
             else Failed)"

definition tone_of_status :: "overall_status \<Rightarrow> tone" where
  "tone_of_status s = (case s of Succeeded \<Rightarrow> Informational | Failed \<Rightarrow> ErrorTone)"

section \<open>The specification's wording, for comparison with the pages\<close>

text \<open>
  The three processing outcomes as the specification derives them from the number \<open>N\<close>
  of submitted videos and the answer of the processing call: \<open>None\<close> when the call
  fails, otherwise for each returned item whether it is processed.
\<close>

datatype processing_status = AllProcessed | PartiallyProcessed | ProcessingFailed

definition spec_overall_status :: "nat \<Rightarrow> bool list option \<Rightarrow> processing_status" where
  "spec_overall_status N answer =
     (case answer of
        None \<Rightarrow> ProcessingFailed
      | Some processed \<Rightarrow>
          if length (filter (\<lambda>p. p) processed) = 0 then ProcessingFailed
          else if list_all (\<lambda>p. p) processed \<and> length processed = N then AllProcessed
          else PartiallyProcessed)"

text \<open>
  The answer of the processing call as the specification reads a reply: the call fails
  when it is rejected or reports a falsy flag; otherwise every returned item counts as
  processed (the items of the sources carry no status of their own).
\<close>

definition spec_answer :: "course_data option reply \<Rightarrow> bool list option" where
  "spec_answer r =
     (case r of
        Threw err \<Rightarrow> None
      | Parsed d \<Rightarrow>
          if success d then
            (case members d of None \<Rightarrow> Some [] | Some c \<Rightarrow> Some (map (\<lambda>i. True) (items c)))
          else None)"

text \<open>
  The identifier set as the specification parses it: split at commas, trim each segment,
  drop the empty ones.
\<close>

fun split_commas :: "string \<Rightarrow> string list" where
  "split_commas [] = [[]]"
| "split_commas (c # cs) =
     (if c = CHR '','' then [] # split_commas cs
      else (case split_commas cs of
              [] \<Rightarrow> [[c]]
            | w # ws \<Rightarrow> (c # w) # ws))"

definition spec_product_ids :: "string \<Rightarrow> string list" where
  "spec_product_ids s = filter (\<lambda>t. t \<noteq> []) (map trim (split_commas s))"

text \<open>
  The configured range of \<open>result_limit\<close>: the decimal numerals from 1 to the bound (the
  inputs declare \<open>min="1" max="50"\<close>).
\<close>

definition spec_limit_in_range :: "nat \<Rightarrow> string \<Rightarrow> bool" where
  "spec_limit_in_range bound txt = (txt \<in> set (map string_of_nat [1..<Suc bound]))"

text \<open>
  Modelled from the spec: the decoder of the wire body, which is not among the sources
  (the servers that read the body are outside the repository).  It reads a body of the
  format that \<open>multipart_encode\<close> writes.  The body is cut at every delimiter, which is
  CR LF, two dashes and the boundary; the pieces in front of the one that starts with
  the closing two dashes are the parts.  In a part the header lines end at the first
  empty line and everything behind that line is the content.  The name and the file
  name of a part are the quoted texts of its \<open>Content-Disposition\<close> line, as written.
\<close>

record part =
  part_name :: string
  part_filename :: "string option"
  part_content :: "char list"

function split_all :: "string \<Rightarrow> string \<Rightarrow> string list" where
  "split_all D [] = [[]]"
| "split_all D (c # cs) =
     (if D \<noteq> [] \<and> prefix D (c # cs) then [] # split_all D (drop (length D) (c # cs))
      else (case split_all D cs of [] \<Rightarrow> [[c]] | p # ps \<Rightarrow> (c # p) # ps))"
  by pat_completeness auto
termination
  by (relation "measure (\<lambda>(D, w). length w)") auto

declare split_all.simps [simp del]

fun join :: "string \<Rightarrow> string list \<Rightarrow> string" where
  "join D [] = []"
| "join D [x] = x"
| "join D (x # y # ys) = x @ D @ join D (y # ys)"

definition quoted :: "string \<Rightarrow> string" where
  "quoted s = takeWhile (\<lambda>c. c \<noteq> CHR 0x22) s"

definition parse_disposition :: "string \<Rightarrow> (string \<times> string option) option" where
  "parse_disposition h =
     (let name_is = ''Content-Disposition: form-data; name='' @ [CHR 0x22];
          filename_is = ''; filename='' @ [CHR 0x22]
      in if \<not> prefix name_is h then None
         else (let r = drop (length name_is) h;
                   n = quoted r;
                   r = drop (Suc (length n)) r
               in if prefix filename_is r
                  then Some (n, Some (quoted (drop (length filename_is) r)))
                  else Some (n, None)))"

definition parse_part :: "string \<Rightarrow> part option" where
  "parse_part p =
     (if \<not> prefix CRLF p then None
      else (let ls = split_all CRLF (drop 2 p);
                hs = takeWhile (\<lambda>l. l \<noteq> []) ls;
                rest = dropWhile (\<lambda>l. l \<noteq> []) ls
            in if rest = [] then None
               else (case List.find (prefix ''Content-Disposition:'') hs of
                       None \<Rightarrow> None
                     | Some h \<Rightarrow>
                         (case parse_disposition h of
                            None \<Rightarrow> None
                          | Some (n, fn) \<Rightarrow>
                              Some \<lparr>part_name = n, part_filename = fn,
                                    part_content = join CRLF (tl rest)\<rparr>))))"

definition multipart_decode :: "string \<Rightarrow> string \<Rightarrow> part list option" where
  "multipart_decode B w =
     (let pieces = tl (split_all (CRLF @ ''--'' @ B) (CRLF @ w));
          parts = takeWhile (\<lambda>p. \<not> prefix ''--'' p) pieces
      in if length parts = length pieces then None else those (map parse_part parts))"

text \<open>
  Modelled from the spec: what the decoder gives for a field.  A text field is the
  content, read as UTF-8, of the first part of that name that has no file name; the
  binary assets are the parts with a file name, in body order.
\<close>

fun utf8_decode :: "string \<Rightarrow> string option" where
  "utf8_decode [] = Some []"
| "utf8_decode [b] = (if (of_char b :: nat) < 128 then Some [b] else None)"
| "utf8_decode (b # c # bs) =
     (let n = of_char b :: nat; m = of_char c :: nat
      in if n < 128 then map_option (Cons b) (utf8_decode (c # bs))
         else if 194 \<le> n \<and> n \<le> 195 \<and> 128 \<le> m \<and> m < 192
         then map_option (Cons (char_of ((n - 192) * 64 + (m - 128)))) (utf8_decode bs)
         else None)"

definition decode_text :: "part list \<Rightarrow> string \<Rightarrow> string option" where
  "decode_text parts k =
     (case List.find (\<lambda>p. part_name p = k \<and> part_filename p = None) parts of
        None \<Rightarrow> None
      | Some p \<Rightarrow> utf8_decode (part_content p))"

definition decode_assets :: "part list \<Rightarrow> part list" where
  "decode_assets parts = filter (\<lambda>p. part_filename p \<noteq> None) parts"

text \<open>
  Modelled from the spec: the round trip, encoding a body with the boundary \<open>B\<close> and
  decoding the bytes again, for one text field and for the contents of the assets.
\<close>

definition round_trip_text :: "string \<Rightarrow> form_data \<Rightarrow> string \<Rightarrow> string option" where
  "round_trip_text B fd k =
     (case multipart_decode B (multipart_encode B fd) of
        None \<Rightarrow> None
      | Some parts \<Rightarrow> decode_text parts k)"

definition round_trip_assets :: "string \<Rightarrow> form_data \<Rightarrow> char list list option" where
  "round_trip_assets B fd =
     (case multipart_decode B (multipart_encode B fd) of
        None \<Rightarrow> None
      | Some parts \<Rightarrow> Some (map part_content (decode_assets parts)))"

text \<open>
  The part that an entry is expected to come back as, and the condition on the boundary
  under which a body can be cut into its parts again: it holds no CR, and the delimiter
  occurs in no encoded part.
\<close>

fun part_of :: "string \<times> entry_value \<Rightarrow> part" where
  "part_of (k, Text v) =
     \<lparr>part_name = field_name k, part_filename = None,
      part_content = utf8 (normalize_newlines v)\<rparr>"
| "part_of (k, Binary f) =
     \<lparr>part_name = field_name k,
      part_filename = Some (esc (utf8 (file_name f))), part_content = file_bytes f\<rparr>"

definition boundary_ok :: "string \<Rightarrow> form_data \<Rightarrow> bool" where
  "boundary_ok B fd =
     (CHR 0x0D \<notin> set B
      \<and> list_all (\<lambda>e. \<not> str_includes (encode_part e) (CRLF @ ''--'' @ B)) fd)"

section \<open>Concrete inputs\<close>

definition video_a :: js_file where
  "video_a = \<lparr>file_name = ''lesson1.mp4'', file_type = ''video/mp4'',
     file_bytes = ''aaaa''\<rparr>"

definition video_b :: js_file where
  "video_b = \<lparr>file_name = ''lesson2.mp4'', file_type = ''video/mp4'',
     file_bytes = ''bb''\<rparr>"

definition ai_page0 :: ai_page where
  "ai_page0 = \<lparr>formData = ai_initial_form, loading = False, message = '''', responseData = None\<rparr>"

definition pdf_file :: js_file where
  "pdf_file = \<lparr>file_name = ''intro.pdf'', file_type = ''application/pdf'',
     file_bytes = ''%PDF-1.7''\<rparr>"

definition digital_page1 :: "string digital_page" where
  "digital_page1 =
     \<lparr>formData =
        \<lparr>product_name = ''Intro to SQL'', product_category = ''Database'', price = ''19.99'',
         product_description = ''A first course'', product_file = Some pdf_file\<rparr>,
      loading = False, message = '''', responseData = None\<rparr>"

definition ai_page1 :: ai_page where
  "ai_page1 =
     \<lparr>formData =
        \<lparr>product_name = ''Intro to SQL'', product_category = ''Database'', price = ''19.99'',
         suggestion_questions = ''What is a join?'', videos = [video_a, video_b]\<rparr>,
      loading = False, message = '''', responseData = None\<rparr>"

text \<open>A boundary as a browser writes it, and a description of two lines.\<close>

definition browser_boundary :: string where
  "browser_boundary = ''----WebKitFormBoundary7MA4YWxkTrZu0gW''"

definition digital_page_lines :: "string digital_page" where
  "digital_page_lines =
     \<lparr>formData =
        \<lparr>product_name = ''Intro to SQL'', product_category = ''Database'', price = ''19.99'',
         product_description = ''Joins'' @ [CHR 0x0A] @ ''Indexes'',
         product_file = Some pdf_file\<rparr>,
      loading = False, message = '''', responseData = None\<rparr>"

text \<open>A file whose bytes hold the delimiter of that boundary.\<close>

definition clash_file :: js_file where
  "clash_file =
     \<lparr>file_name = ''notes.txt'', file_type = ''text/plain'',
      file_bytes = ''ab'' @ CRLF @ ''--'' @ browser_boundary @ ''--'' @ CRLF\<rparr>"

text \<open>Replies of the server: no connection, two results, no result, a reported failure.\<close>

definition offline :: "request \<Rightarrow> 'd reply" where
  "offline req = Threw ''Failed to fetch''"

text \<open>The same rejection with the text another browser gives it.\<close>

definition load_failed :: "request \<Rightarrow> 'd reply" where
  "load_failed req = Threw ''Load failed''"

definition found_two_body :: "string search_members response" where
  "found_two_body =
     \<lparr>success = True, resp_message = None,
      members = \<lparr>total_results = 2, query = ''python'', results = Some [''b'', ''a'']\<rparr>\<rparr>"

definition found_two :: "request \<Rightarrow> string search_members reply" where
  "found_two req = Parsed found_two_body"

definition found_none_body :: "string search_members response" where
  "found_none_body =
     \<lparr>success = True, resp_message = None,
      members = \<lparr>total_results = 0, query = ''python'', results = Some []\<rparr>\<rparr>"

definition found_none :: "request \<Rightarrow> string search_members reply" where
  "found_none req = Parsed found_none_body"

definition search_failed_body :: "string search_members response" where
  "search_failed_body =
     \<lparr>success = False, resp_message = Some ''index unavailable'',
      members = \<lparr>total_results = 0, query = '''', results = None\<rparr>\<rparr>"

definition search_failed :: "request \<Rightarrow> string search_members reply" where
  "search_failed req = Parsed search_failed_body"

definition sd_page1 :: "string sd_page" where
  "sd_page1 = sd_initial\<lparr>formData := \<lparr>searchQuery = ''python'', numResults = Num 5\<rparr>\<rparr>"

definition sd_page_blank :: "string sd_page" where
  "sd_page_blank = sd_initial\<lparr>formData := \<lparr>searchQuery = ''  '', numResults = Num 5\<rparr>\<rparr>"

definition vs_page1 :: "string vs_page" where
  "vs_page1 =
     vs_initial\<lparr>formData :=
       \<lparr>question = ''what is a join?'', product_ids = ''1,2'', n_value = ''5''\<rparr>\<rparr>"

definition vs_page_no_question :: "string vs_page" where
  "vs_page_no_question =
     vs_initial\<lparr>formData := \<lparr>question = '''', product_ids = ''1,2'', n_value = ''5''\<rparr>\<rparr>"

definition vs_page_blank_ids :: "string vs_page" where
  "vs_page_blank_ids =
     vs_initial\<lparr>formData :=
       \<lparr>question = ''what is a join?'', product_ids = ''  '', n_value = ''5''\<rparr>\<rparr>"

definition vs_page_commas :: "string vs_page" where
  "vs_page_commas =
     vs_initial\<lparr>formData :=
       \<lparr>question = ''what is a join?'', product_ids = '', ,'', n_value = ''5''\<rparr>\<rparr>"

text \<open>Inputs for the course pages.\<close>

definition no_identity :: storage where
  "no_identity = Map.empty"

definition ai_page_one :: ai_page where
  "ai_page_one =
     \<lparr>formData =
        \<lparr>product_name = ''Intro to SQL'', product_category = ''Database'', price = ''19.99'',
         suggestion_questions = ''What is a join?'', videos = [video_a]\<rparr>,
      loading = False, message = '''', responseData = None\<rparr>"

definition one_item_body :: "course_data option response" where
  "one_item_body =
     \<lparr>success = True, resp_message = None,
      members = Some \<lparr>product_id = ''abc-123'', number_of_videos = 1, total_vectors = 3,
        items = [\<lparr>lesson_title = ''lesson1'', video_gcs = ''gs://b/v1'', audio_gcs = ''gs://b/a1'',
                  text_gcs = ''gs://b/t1'', pdf_gcs = ''gs://b/p1'',
                  vectors = Some [''v1'', ''v2'', ''v3'']\<rparr>]\<rparr>\<rparr>"

definition one_item :: "request \<Rightarrow> course_data option reply" where
  "one_item req = Parsed one_item_body"

definition ap_state1 :: add_product where
  "ap_state1 =
     \<lparr>ap_productType = ''ai'', ap_name = ''Intro to SQL'', ap_category = ''Database'',
      ap_price = ''19.99'', ap_description = '''', ap_file = None,
      ap_videos = [video_a, video_b], ap_loading = False, ap_message = ''''\<rparr>"

definition created_body :: "ap_members response" where
  "created_body =
     \<lparr>success = True, resp_message = None,
      members = \<lparr>created_product_id = Some ''abc-123'', processing = None\<rparr>\<rparr>"

definition refused_body :: "ap_members response" where
  "refused_body =
     \<lparr>success = False, resp_message = Some ''no GPU'',
      members = \<lparr>created_product_id = None, processing = None\<rparr>\<rparr>"

text \<open>The record is created; the processing call then finds no connection, or is refused.\<close>

definition created_then_offline :: "request \<Rightarrow> ap_members reply" where
  "created_then_offline req =
     (if url req = ''http://localhost:5000/api/products/ai-training'' then Parsed created_body
      else Threw ''Failed to fetch'')"

definition created_then_refused :: "request \<Rightarrow> ap_members reply" where
  "created_then_refused req =
     (if url req = ''http://localhost:5000/api/products/ai-training'' then Parsed created_body
      else Parsed refused_body)"

definition create_refused :: "request \<Rightarrow> ap_members reply" where
  "create_refused req =
     Parsed \<lparr>success = False, resp_message = Some ''duplicate name'',
             members = \<lparr>created_product_id = None, processing = None\<rparr>\<rparr>"

section \<open>Facts about strings and form bodies\<close>

lemma includes_iff: "str_includes s p \<longleftrightarrow> (\<exists>a b. s = a @ p @ b)"
proof (induction s)
  case Nil
  then show ?case by auto
next
  case (Cons c cs)
  show ?case
  proof
    assume "str_includes (c # cs) p"
    then consider "prefix p (c # cs)" | "str_includes cs p" by auto
    then show "\<exists>a b. c # cs = a @ p @ b"
    proof cases
      case 1
      then obtain b where "c # cs = p @ b" by (auto simp: prefix_def)
      then have "c # cs = [] @ p @ b" by simp
      then show ?thesis by blast
    next
      case 2
      with Cons.IH obtain a b where "cs = a @ p @ b" by blast
      then have "c # cs = (c # a) @ p @ b" by simp
      then show ?thesis by blast
    qed
  next
    assume "\<exists>a b. c # cs = a @ p @ b"
    then obtain a b where ab: "c # cs = a @ p @ b" by blast
    show "str_includes (c # cs) p"
    proof (cases a)
      case Nil
      with ab have "prefix p (c # cs)" by (simp add: prefix_def)
      then show ?thesis by simp
    next
      case (Cons x a')
      with ab have "cs = a' @ p @ b" by simp
      with Cons.IH have "str_includes cs p" by blast
      then show ?thesis by simp
    qed
  qed
qed

lemma getAll_append: "getAll (xs @ ys) k = getAll xs k @ getAll ys k"
  by (simp add: getAll_def)

lemma foldl_fd_append:
  "foldl (\<lambda>fd v. fd_append fd k (f v)) acc vs = acc @ map (\<lambda>v. (k, f v)) vs"
  by (induction vs arbitrary: acc) (simp_all add: fd_append_def)

lemma AddAIProduct_submitData_eq:
  "AddAIProduct_submitData localStorage fd =
     [(''admin_id'', Text (or_else (getItem localStorage ''admin_id'') default_admin_id)),
      (''admin_type'', Text (or_else (getItem localStorage ''admin_type'') default_admin_type)),
      (''product_name'', Text (product_name fd)),
      (''product_category'', Text (product_category fd)),
      (''suggestion_questions'', Text (suggestion_questions fd)),
      (''price'', Text (price fd))]
     @ map (\<lambda>video. (''videos'', Binary video)) (videos fd)"
  unfolding AddAIProduct_submitData_def Let_def foldl_fd_append
  by (simp add: fd_append_def)

lemma getAll_videos_map:
  "getAll (map (\<lambda>video. (''videos'', Binary video)) vs) ''videos'' = map Binary vs"
  by (induction vs) (simp_all add: getAll_def)

lemma AddAIProduct_handleInputChange_videos:
  "videos (formData (AddAIProduct_handleInputChange k v st)) = videos (formData st)"
  by (cases k) (simp_all add: AddAIProduct_handleInputChange_def)

lemma fold_handleInputChange_videos:
  "videos (formData (fold (\<lambda>(k, v). AddAIProduct_handleInputChange k v) edits st))
     = videos (formData st)"
  by (induction edits arbitrary: st) (simp_all add: AddAIProduct_handleInputChange_videos split: prod.splits)

lemma AddAIProduct_requests:
  "snd (AddAIProduct_handleSubmit ls fetch st) = [AddAIProduct_request ls (formData st)]"
  by (simp add: AddAIProduct_handleSubmit_def Let_def split: reply.split)

lemma filter_binary_videos:
  "filter (\<lambda>e. is_binary (snd e)) (map (\<lambda>video. (''videos'', Binary video)) vs)
     = map (\<lambda>video. (''videos'', Binary video)) vs"
  by (induction vs) simp_all

lemma submitData_binary_entries:
  "filter (\<lambda>e. is_binary (snd e)) (AddAIProduct_submitData ls fd)
     = map (\<lambda>video. (''videos'', Binary video)) (videos fd)"
  by (simp add: AddAIProduct_submitData_eq filter_binary_videos)

lemma submitData_getAll_videos:
  "getAll (AddAIProduct_submitData ls fd) ''videos'' = map Binary (videos fd)"
  unfolding AddAIProduct_submitData_eq getAll_append getAll_videos_map
  by (simp add: getAll_def)

lemma submitData_nth_video:
  "i < length (videos fd) \<Longrightarrow>
     AddAIProduct_submitData ls fd ! (6 + i) = (''videos'', Binary (videos fd ! i))"
  by (simp add: AddAIProduct_submitData_eq nth_append)

lemma videos_after_selection:
  "videos (formData (fold (\<lambda>(k, v). AddAIProduct_handleInputChange k v) edits
                      (handleVideosChange files st))) = files"
  by (simp add: fold_handleInputChange_videos handleVideosChange_def)

lemma UploadDigitalProduct_requests:
  "product_file (formData st) = Some f \<Longrightarrow>
     snd (UploadDigitalProduct_handleSubmit ls fetch st)
       = [UploadDigitalProduct_request ls (formData st) f]"
  by (simp add: UploadDigitalProduct_handleSubmit_def Let_def split: reply.split)

lemma UploadDigitalProduct_submitData_eq:
  "UploadDigitalProduct_submitData localStorage fd f =
     [(''admin_id'', Text (or_else (getItem localStorage ''admin_id'') default_admin_id)),
      (''admin_type'', Text (or_else (getItem localStorage ''admin_type'') default_admin_type)),
      (''product_name'', Text (product_name fd)),
      (''product_category'', Text (product_category fd)),
      (''product_description'', Text (product_description fd)),
      (''price'', Text (price fd)),
      (''product_file'', Binary f)]"
  by (simp add: UploadDigitalProduct_submitData_def Let_def fd_append_def)

lemma getAll_videos_other:
  "k \<noteq> ''videos'' \<Longrightarrow> getAll (map (\<lambda>video. (''videos'', Binary video)) vs) k = []"
  by (induction vs) (simp_all add: getAll_def)

lemma AddAIProduct_tone_final:
  "AddAIProduct_tone (message (fst (AddAIProduct_handleSubmit ls fetch st)))
     = tone_of_status (AddAIProduct_status ls fetch st)"
  by (simp add: AddAIProduct_handleSubmit_def AddAIProduct_status_def reply_status_def
      tone_of_status_def AddAIProduct_tone_def Let_def split: reply.split)

lemma UploadDigitalProduct_tone_final:
  "UploadDigitalProduct_tone (message (fst (UploadDigitalProduct_handleSubmit ls fetch st)))
     = tone_of_status (UploadDigitalProduct_status ls fetch st)"
  by (simp add: UploadDigitalProduct_handleSubmit_def UploadDigitalProduct_status_def
      reply_status_def tone_of_status_def UploadDigitalProduct_tone_def Let_def
      split: reply.split option.split)

lemma includes_set: "str_includes s p \<Longrightarrow> set p \<subseteq> set s"
  by (auto simp: includes_iff)

lemma digit_chars_number: "digit_chars \<subseteq> number_chars"
  by (simp add: digit_chars_def number_chars_def)

lemma string_of_nat_digits: "set (string_of_nat k) \<subseteq> digit_chars"
proof (induction k rule: string_of_nat.induct)
  case (1 k)
  have d: "''0123456789'' ! (k mod 10) \<in> digit_chars"
    unfolding digit_chars_def by (rule nth_mem) simp
  show ?case
  proof (cases "k < 10")
    case True
    then have "string_of_nat k = [''0123456789'' ! k]"
      by (subst string_of_nat.simps) simp
    moreover from True have "''0123456789'' ! k \<in> digit_chars"
      unfolding digit_chars_def by (intro nth_mem) simp
    ultimately show ?thesis by simp
  next
    case False
    then have "string_of_nat k = string_of_nat (k div 10) @ [''0123456789'' ! (k mod 10)]"
      by (subst string_of_nat.simps) simp
    with 1 False d show ?thesis by simp
  qed
qed

lemma string_of_nat_nonempty: "string_of_nat k \<noteq> []"
proof (cases "k < 10")
  case True
  then have "string_of_nat k = [''0123456789'' ! k]"
    by (subst string_of_nat.simps) simp
  then show ?thesis by simp
next
  case False
  then have "string_of_nat k = string_of_nat (k div 10) @ [''0123456789'' ! (k mod 10)]"
    by (subst string_of_nat.simps) simp
  then show ?thesis by simp
qed

lemma strip_zeros_subset: "set (strip_zeros s) \<subseteq> set s"
proof
  fix c
  assume "c \<in> set (strip_zeros s)"
  then have "c \<in> set (dropWhile (\<lambda>c. c = CHR ''0'') (rev s))"
    by (simp add: strip_zeros_def)
  then have "c \<in> set (rev s)" by (rule set_dropWhileD)
  then show "c \<in> set s" by simp
qed

lemma strip_zeros_digits: "set (strip_zeros (string_of_nat c)) \<subseteq> digit_chars"
  using strip_zeros_subset string_of_nat_digits by (rule order_trans)

text \<open>A printed double is not empty, its characters are number characters other than
  the letters of \<open>NaN\<close> and \<open>Infinity\<close>, and it ends in a digit.\<close>

lemma print_double_shape:
  "print_double x \<noteq> [] \<and> set (print_double x) \<subseteq> digit_chars \<union> set ''.e+''
   \<and> last (print_double x) \<in> digit_chars"
proof -
  obtain c e where ce: "shortest_digits x [1..<18] = (c, e)"
    by (cases "shortest_digits x [1..<18]")
  define s where "s = strip_zeros (string_of_nat c)"
  define n where "n = length (string_of_nat (c * 10 ^ e))"
  have sd: "set s \<subseteq> digit_chars"
    unfolding s_def by (rule strip_zeros_digits)
  have n0: "0 < n"
    unfolding n_def using string_of_nat_nonempty by simp
  have z: "CHR ''0'' \<in> digit_chars"
    by (simp add: digit_chars_def)
  show ?thesis
  proof (cases "n \<le> 21")
    case True
    then have p: "print_double x = s @ replicate (n - length s) (CHR ''0'')"
      unfolding print_double_def ce by (simp add: s_def n_def Let_def)
    have "length (print_double x) = length s + (n - length s)"
      by (simp add: p)
    with n0 have ne: "print_double x \<noteq> []" by auto
    have sub: "set (print_double x) \<subseteq> digit_chars"
      unfolding p using sd z by auto
    from ne have "last (print_double x) \<in> set (print_double x)" by (rule last_in_set)
    with sub have "last (print_double x) \<in> digit_chars" by blast
    with ne sub show ?thesis by blast
  next
    case False
    define h where "h = (if length s = 1 then s else take 1 s @ ''.'' @ drop 1 s)"
    from False have p: "print_double x = h @ ''e+'' @ string_of_nat (n - 1)"
      unfolding print_double_def ce by (simp add: s_def n_def h_def Let_def)
    have "set (take 1 s) \<subseteq> set s" "set (drop 1 s) \<subseteq> set s"
      by (rule set_take_subset, rule set_drop_subset)
    with sd have t: "set (take 1 s) \<subseteq> digit_chars" "set (drop 1 s) \<subseteq> digit_chars"
      by blast+
    have hs: "set h \<subseteq> digit_chars \<union> set ''.e+''"
      unfolding h_def using sd t by auto
    have ms: "set (string_of_nat (n - 1)) \<subseteq> digit_chars"
      by (rule string_of_nat_digits)
    have sub: "set (print_double x) \<subseteq> digit_chars \<union> set ''.e+''"
      unfolding p using hs ms by auto
    have l: "last (print_double x) = last (string_of_nat (n - 1))"
      unfolding p using string_of_nat_nonempty by simp
    have "last (string_of_nat (n - 1)) \<in> set (string_of_nat (n - 1))"
      using string_of_nat_nonempty by (rule last_in_set)
    with ms l have "last (print_double x) \<in> digit_chars" by auto
    moreover have "print_double x \<noteq> []" unfolding p by simp
    ultimately show ?thesis using sub by blast
  qed
qed

lemma digit_chars_final: "digit_chars \<subseteq> final_chars"
  by (simp add: digit_chars_def final_chars_def)

lemma point_chars_number: "set ''.e+'' \<subseteq> number_chars"
  by (simp add: number_chars_def)

lemma unsigned_shape:
  "(if v < 2 ^ 53 then string_of_nat v else print_double v) \<noteq> []
   \<and> set (if v < 2 ^ 53 then string_of_nat v else print_double v) \<subseteq> number_chars
   \<and> last (if v < 2 ^ 53 then string_of_nat v else print_double v) \<in> final_chars"
proof (cases "v < 2 ^ 53")
  case True
  have ne: "string_of_nat v \<noteq> []" by (rule string_of_nat_nonempty)
  then have "last (string_of_nat v) \<in> set (string_of_nat v)" by (rule last_in_set)
  with string_of_nat_digits [of v] digit_chars_final
  have l: "last (string_of_nat v) \<in> final_chars" by blast
  from string_of_nat_digits [of v] digit_chars_number
  have s: "set (string_of_nat v) \<subseteq> number_chars" by blast
  from True ne l s show ?thesis by simp
next
  case False
  from print_double_shape [of v] digit_chars_final digit_chars_number point_chars_number False
  show ?thesis by auto
qed

lemma toString_shape:
  "toString x \<noteq> [] \<and> set (toString x) \<subseteq> number_chars \<and> last (toString x) \<in> final_chars"
proof (cases x)
  case NaN
  then show ?thesis by (simp add: toString_def number_chars_def final_chars_def)
next
  case (Infinite negative)
  then show ?thesis by (simp add: toString_def number_chars_def final_chars_def)
next
  case (Num i)
  show ?thesis
  proof (cases "round_to_double (nat \<bar>i\<bar>)")
    case None
    with Num show ?thesis by (simp add: toString_def number_chars_def final_chars_def)
  next
    case (Some v)
    define u where "u = (if v < 2 ^ 53 then string_of_nat v else print_double v)"
    have u: "u \<noteq> []" "set u \<subseteq> number_chars" "last u \<in> final_chars"
      unfolding u_def using unsigned_shape [of v] by blast+
    have m: "CHR ''-'' \<in> number_chars" by (simp add: number_chars_def)
    from Num Some have t: "toString x = (if i < 0 then ''-'' else '''') @ u"
      by (simp add: toString_def u_def)
    from u m show ?thesis unfolding t by auto
  qed
qed

lemma toString_no_E: "CHR ''E'' \<notin> set (toString x)"
proof
  assume "CHR ''E'' \<in> set (toString x)"
  with toString_shape [of x] have "CHR ''E'' \<in> number_chars" by blast
  then show False by (simp add: number_chars_def)
qed

lemma toString_no_r: "CHR ''r'' \<notin> set (toString x)"
proof
  assume "CHR ''r'' \<in> set (toString x)"
  with toString_shape [of x] have "CHR ''r'' \<in> number_chars" by blast
  then show False by (simp add: number_chars_def)
qed

lemma toString_no_o: "CHR ''o'' \<notin> set (toString x)"
proof
  assume "CHR ''o'' \<in> set (toString x)"
  with toString_shape [of x] have "CHR ''o'' \<in> number_chars" by blast
  then show False by (simp add: number_chars_def)
qed

lemma toString_last: "last (toString x) \<notin> set ''error''"
proof
  assume "last (toString x) \<in> set ''error''"
  moreover from toString_shape [of x] have "last (toString x) \<in> final_chars" by blast
  ultimately show False by (auto simp: final_chars_def)
qed

lemma round_to_double_safe: "m < 2 ^ 53 \<Longrightarrow> round_to_double m = Some m"
  by (simp add: round_to_double_def)

lemma toString_safe:
  assumes "\<bar>i\<bar> < 2 ^ 53"
  shows "toString (number_of_int i) = string_of_int i"
proof -
  from assms have m: "nat \<bar>i\<bar> < 2 ^ 53" by (simp add: nat_less_iff)
  then have r: "round_to_double (nat \<bar>i\<bar>) = Some (nat \<bar>i\<bar>)"
    by (rule round_to_double_safe)
  show ?thesis
  proof (cases "i < 0")
    case True
    then have a: "\<bar>- int (nat \<bar>i\<bar>)\<bar> = \<bar>i\<bar>" "- int (nat \<bar>i\<bar>) = i" "nat \<bar>i\<bar> = nat (- i)" by simp_all
    from True r m show ?thesis
      by (simp add: number_of_int_def toString_def string_of_int_def a)
  next
    case False
    then have a: "int (nat \<bar>i\<bar>) = i" "nat \<bar>i\<bar> = nat i" by simp_all
    from False r m show ?thesis
      by (simp add: number_of_int_def toString_def string_of_int_def a)
  qed
qed

lemma NaN_not_numeral: "string_of_nat k \<noteq> ''NaN''"
proof
  assume "string_of_nat k = ''NaN''"
  then have "CHR ''N'' \<in> set (string_of_nat k)" by simp
  with string_of_nat_digits [of k] have "CHR ''N'' \<in> digit_chars" by blast
  then show False by (simp add: digit_chars_def)
qed

lemma found_message_tone:
  "\<not> str_includes
       (''Found '' @ toString x @ '' digital products matching your search'') ''Error''"
proof
  assume "str_includes
       (''Found '' @ toString x @ '' digital products matching your search'') ''Error''"
  then have "set ''Error''
      \<subseteq> set (''Found '' @ toString x @ '' digital products matching your search'')"
    by (rule includes_set)
  then have "CHR ''E'' \<in> set (toString x)" by auto
  then show False using toString_no_E by simp
qed

lemma cards_result:
  "map card_result (map (\<lambda>(index, result).
       \<lparr>card_key = index, card_rank = index + 1, card_result = result\<rparr>) (enumerate 0 rs)) = rs"
  by (simp add: enumerate_eq_zip comp_def case_prod_unfold)

lemma enumerate_ranks:
  "map (\<lambda>x. Suc (fst x)) (enumerate n rs) = [Suc n..<Suc (n + length rs)]"
proof -
  have "map (\<lambda>x. Suc (fst x)) (enumerate n rs) = map Suc (map fst (enumerate n rs))"
    by (simp only: map_map comp_def)
  also have "map fst (enumerate n rs) = [n..<n + length rs]"
    by (rule map_fst_enumerate)
  also have "map Suc [n..<n + length rs] = [Suc n..<Suc (n + length rs)]"
    by (rule map_Suc_upt)
  finally show ?thesis .
qed

lemma cards_rank:
  "map card_rank (map (\<lambda>(index, result).
       \<lparr>card_key = index, card_rank = index + 1, card_result = result\<rparr>) (enumerate 0 rs))
     = [1..<Suc (length rs)]"
  using enumerate_ranks [of 0 rs] by (simp add: comp_def case_prod_unfold)

lemma handleSearch_success:
  "trim (searchQuery (formData st)) \<noteq> [] \<Longrightarrow>
   fetch (SearchDigitalProduct_request (formData st)) = Parsed d \<Longrightarrow> success d \<Longrightarrow>
   handleSearch fetch st =
     (st\<lparr>message := ''Found '' @ toString (number_of_int (total_results (members d)))
                       @ '' digital products matching your search'',
         responseData := Some d, loading := False\<rparr>,
      [SearchDigitalProduct_request (formData st)])"
  by (simp add: handleSearch_def Let_def)

lemma handleSearch_failure:
  "trim (searchQuery (formData st)) \<noteq> [] \<Longrightarrow>
   fetch (SearchDigitalProduct_request (formData st)) = Parsed d \<Longrightarrow> \<not> success d \<Longrightarrow>
   handleSearch fetch st =
     (st\<lparr>message := ''Error: '' @ or_else (resp_message d) ''Search failed'',
         responseData := None, loading := False\<rparr>,
      [SearchDigitalProduct_request (formData st)])"
  by (simp add: handleSearch_def Let_def)

lemma VectorSearch_handleSubmit_success:
  "trim (question (formData st)) \<noteq> [] \<Longrightarrow> trim (product_ids (formData st)) \<noteq> [] \<Longrightarrow>
   fetch (VectorSearch_request (formData st)) = Parsed d \<Longrightarrow> success d \<Longrightarrow>
   VectorSearch_handleSubmit fetch st =
     (st\<lparr>message := ''Found '' @ toString (number_of_int (total_results (members d)))
                       @ '' results for your search'',
         responseData := Some d, loading := False\<rparr>,
      [VectorSearch_request (formData st)])"
  by (simp add: VectorSearch_handleSubmit_def Let_def)

lemma createRequest_ignores_progress:
  "AddProduct_createRequest ls (st\<lparr>ap_loading := l, ap_message := m\<rparr>)
     = AddProduct_createRequest ls st"
  by (simp add: AddProduct_createRequest_def)

lemma processRequest_ignores_progress:
  "AddProduct_processRequest ls (st\<lparr>ap_loading := l, ap_message := m\<rparr>) pid
     = AddProduct_processRequest ls st pid"
  by (simp add: AddProduct_processRequest_def)

lemma handleAISubmit_trace:
  "snd (handleAISubmit ls fetch st) =
     (case fetch (AddProduct_createRequest ls st) of
        Threw err \<Rightarrow> [AddProduct_createRequest ls st]
      | Parsed d \<Rightarrow>
          if success d then
            [AddProduct_createRequest ls st,
             AddProduct_processRequest ls st (created_product_id (members d))]
          else [AddProduct_createRequest ls st])"
  by (simp add: handleAISubmit_def Let_def createRequest_ignores_progress
      processRequest_ignores_progress split: reply.split option.split)

lemma created_then_refused_1:
  "created_then_refused (AddProduct_createRequest no_identity ap_state1) = Parsed created_body"
  by (simp add: created_then_refused_def AddProduct_createRequest_def)

lemma created_then_refused_2:
  "created_then_refused (AddProduct_processRequest no_identity ap_state1 pid) = Parsed refused_body"
  by (simp add: created_then_refused_def AddProduct_processRequest_def)

lemma prefix_stops_before:
  assumes "prefix p (a @ d @ b)" and "d \<noteq> []" and "set d \<inter> set p = {}"
  shows "prefix p a"
proof -
  from assms(1) consider "prefix p a" | us where "p = a @ us" "prefix us (d @ b)"
    by (auto simp: prefix_append)
  then show ?thesis
  proof cases
    case 1
    then show ?thesis .
  next
    case 2
    show ?thesis
    proof (cases us)
      case Nil
      with 2 show ?thesis by simp
    next
      case (Cons u us')
      from assms(2) obtain c d' where d: "d = c # d'" by (cases d) auto
      with 2(2) Cons have "u = c" by simp
      with 2(1) Cons d have "c \<in> set p" "c \<in> set d" by simp_all
      with assms(3) show ?thesis by auto
    qed
  qed
qed

lemma includes_skips:
  "set d \<inter> set p = {} \<Longrightarrow> p \<noteq> [] \<Longrightarrow> str_includes (d @ b) p \<Longrightarrow> str_includes b p"
proof (induction d)
  case Nil
  then show ?case by simp
next
  case (Cons c d)
  from Cons.prems(2) obtain x p' where p: "p = x # p'" by (cases p) auto
  from Cons.prems(1) p have "x \<noteq> c" by auto
  with p have "\<not> prefix p (c # d @ b)" by simp
  with Cons.prems(3) have "str_includes (d @ b) p" by simp
  with Cons.IH Cons.prems(1,2) show ?case by simp
qed

lemma includes_split:
  assumes "d \<noteq> []" and "set d \<inter> set p = {}" and "p \<noteq> []"
  shows "str_includes (a @ d @ b) p \<Longrightarrow> str_includes a p \<or> str_includes b p"
proof (induction a)
  case Nil
  with includes_skips [OF assms(2,3)] show ?case by simp
next
  case (Cons x a)
  from Cons.prems consider "prefix p ((x # a) @ d @ b)" | "str_includes (a @ d @ b) p"
    by auto
  then show ?case
  proof cases
    case 1
    then have "prefix p (x # a)" using assms(1,2) by (rule prefix_stops_before)
    then show ?thesis by simp
  next
    case 2
    with Cons.IH show ?thesis by auto
  qed
qed

lemma includes_before:
  assumes "p \<noteq> []" and "last p \<notin> set d"
  shows "str_includes (a @ d) p \<Longrightarrow> str_includes a p"
  using assms(2)
proof (induction d rule: rev_induct)
  case Nil
  then show ?case by simp
next
  case (snoc z d)
  from snoc.prems(1) obtain u w where uw: "a @ d @ [z] = u @ p @ w"
    by (auto simp: includes_iff)
  show ?case
  proof (cases w rule: rev_cases)
    case Nil
    with uw have "last (a @ d @ [z]) = last (u @ p)" by simp
    with assms(1) have "z = last p" by simp
    with snoc.prems(2) show ?thesis by simp
  next
    case (snoc w' y)
    with uw have "(a @ d) @ [z] = (u @ p @ w') @ [y]" by simp
    then have "a @ d = u @ p @ w'" by (simp only: append1_eq_conv)
    then have "str_includes (a @ d) p" by (auto simp: includes_iff)
    with snoc.IH snoc.prems(2) show ?thesis by simp
  qed
qed

lemma includes_split_last:
  assumes "d \<noteq> []" and "last d \<notin> set p" and "last p \<notin> set d" and "p \<noteq> []"
    and "str_includes (a @ d @ b) p"
  shows "str_includes a p \<or> str_includes b p"
proof -
  from assms(1) have d: "d = butlast d @ [last d]" by simp
  from assms(2) have c: "set [last d] \<inter> set p = {}" by simp
  have "str_includes ((a @ butlast d) @ [last d] @ b) p"
    using assms(5) d by (metis append.assoc)
  with includes_split [OF _ c assms(4), of "a @ butlast d" b]
  have "str_includes (a @ butlast d) p \<or> str_includes b p" by simp
  moreover have "last p \<notin> set (butlast d)"
    using assms(3) by (auto dest: in_set_butlastD)
  ultimately show ?thesis using includes_before [OF assms(4)] by blast
qed

lemma found_results_tone:
  "VectorSearch_tone (''Found '' @ toString x @ '' results for your search'') = Informational"
proof -
  have d: "toString x \<noteq> []" using toString_shape [of x] by blast
  have e1: "set (toString x) \<inter> set ''Error'' = {}"
    using toString_no_E [of x] toString_no_r [of x] toString_no_o [of x] by simp
  have l: "last (toString x) \<notin> set ''error''" by (rule toString_last)
  have lp: "last ''error'' \<notin> set (toString x)"
    using toString_no_r [of x] by simp
  have n1: "\<not> str_includes ''Found '' ''Error''" "\<not> str_includes ''Found '' ''error''"
    by simp_all
  have n2: "\<not> str_includes '' results for your search'' ''Error''"
    "\<not> str_includes '' results for your search'' ''error''"
    by simp_all
  have p: "''Error'' \<noteq> []" "''error'' \<noteq> []" by simp_all
  have a: "\<not> str_includes (''Found '' @ toString x @ '' results for your search'') ''Error''"
    using includes_split [OF d e1 p(1), of "''Found ''" "'' results for your search''"] n1(1) n2(1)
    by blast
  have b: "\<not> str_includes (''Found '' @ toString x @ '' results for your search'') ''error''"
    using includes_split_last [OF d l lp p(2), of "''Found ''" "'' results for your search''"]
      n1(2) n2(2)
    by blast
  from a b show ?thesis
    unfolding VectorSearch_tone_def by (simp only: if_False simp_thms)
qed

lemma VectorSearch_handleSubmit_failure:
  "trim (question (formData st)) \<noteq> [] \<Longrightarrow> trim (product_ids (formData st)) \<noteq> [] \<Longrightarrow>
   fetch (VectorSearch_request (formData st)) = Parsed d \<Longrightarrow> \<not> success d \<Longrightarrow>
   VectorSearch_handleSubmit fetch st =
     (st\<lparr>message := ''Error: '' @ or_else (resp_message d) ''Search failed'',
         responseData := None, loading := False\<rparr>,
      [VectorSearch_request (formData st)])"
  by (simp add: VectorSearch_handleSubmit_def Let_def)

lemma error_prefix_tone: "VectorSearch_tone (''Error: '' @ m) = ErrorTone"
  by (simp add: VectorSearch_tone_def)

subsection \<open>Facts about the wire body\<close>

lemma split_all_nonempty: "split_all D w \<noteq> []"
  by (induction D w rule: split_all.induct) (auto simp: split_all.simps split: list.splits)

lemma not_includes_first: "c \<notin> set x \<Longrightarrow> \<not> str_includes x (c # t)"
  by (induction x) auto

lemma split_all_none: "D \<noteq> [] \<Longrightarrow> \<not> str_includes x D \<Longrightarrow> split_all D x = [x]"
  by (induction x) (auto simp: split_all.simps)

lemma prefix_straddle:
  assumes "prefix (c # t) (y @ (c # t) @ r)" and "c \<notin> set t" and "y \<noteq> []"
  shows "prefix (c # t) y"
proof -
  from assms(1) [unfolded prefix_append [of "c # t" y "(c # t) @ r"]]
  consider "prefix (c # t) y"
    | us where "c # t = y @ us" and "prefix us ((c # t) @ r)"
    by blast
  then show ?thesis
  proof cases
    case 1
    then show ?thesis .
  next
    case 2
    show ?thesis
    proof (cases us)
      case Nil
      with 2 show ?thesis by simp
    next
      case (Cons u us')
      with 2(2) have "u = c" by simp
      from assms(3) obtain a y' where y: "y = a # y'" by (cases y) auto
      with 2 Cons \<open>u = c\<close> have "t = y' @ c # us'" by simp
      with assms(2) show ?thesis by simp
    qed
  qed
qed

lemma split_all_append:
  assumes "c \<notin> set t" and "\<not> str_includes x (c # t)"
  shows "split_all (c # t) (x @ (c # t) @ r) = x # split_all (c # t) r"
  using assms(2)
proof (induction x)
  case Nil
  show ?case by (simp add: split_all.simps)
next
  case (Cons a x)
  have np: "\<not> prefix (c # t) ((a # x) @ (c # t) @ r)"
  proof
    assume "prefix (c # t) ((a # x) @ (c # t) @ r)"
    from prefix_straddle [OF this assms(1)] have "prefix (c # t) (a # x)" by simp
    with Cons.prems show False by simp
  qed
  from Cons.prems have "\<not> str_includes x (c # t)" by simp
  from Cons.IH [OF this] np show ?case
    by (simp add: split_all.simps)
qed

lemma join_cons: "join D ((c # p) # ps) = c # join D (p # ps)"
  by (cases ps) simp_all

lemma join_nil_cons: "ys \<noteq> [] \<Longrightarrow> join D ([] # ys) = D @ join D ys"
  by (cases ys) simp_all

lemma join_split: "D \<noteq> [] \<Longrightarrow> join D (split_all D x) = x"
proof (induction D x rule: split_all.induct)
  case (1 D)
  show ?case by (simp add: split_all.simps)
next
  case (2 D c cs)
  show ?case
  proof (cases "prefix D (c # cs)")
    case True
    with 2 have "join D (split_all D (drop (length D) (c # cs))) = drop (length D) (c # cs)"
      by simp
    moreover from True have "D @ drop (length D) (c # cs) = c # cs"
      by (auto simp: prefix_def)
    ultimately show ?thesis using True 2(3)
      by (subst split_all.simps) (simp add: join_nil_cons split_all_nonempty)
  next
    case False
    with 2 have ih: "join D (split_all D cs) = cs" by simp
    obtain p ps where s: "split_all D cs = p # ps"
      using split_all_nonempty [of D cs] by (cases "split_all D cs") auto
    from ih False show ?thesis
      by (subst split_all.simps) (simp add: s join_cons)
  qed
qed

lemma esc_clean:
  "CHR 0x0D \<notin> set (esc s)" "CHR 0x0A \<notin> set (esc s)" "CHR 0x22 \<notin> set (esc s)"
  by (induction s) (auto simp: esc_def)

lemma field_name_clean:
  "CHR 0x0D \<notin> set (field_name k)" "CHR 0x0A \<notin> set (field_name k)"
  "CHR 0x22 \<notin> set (field_name k)"
  unfolding field_name_def by (rule esc_clean)+

lemma content_type_clean: "CHR 0x0D \<notin> set (content_type f)"
proof -
  have "list_all printable t \<Longrightarrow> CHR 0x0D \<notin> set t" for t
    by (induction t) (auto simp: printable_def)
  then show ?thesis by (simp add: content_type_def)
qed

lemma quoted_closed: "CHR 0x22 \<notin> set x \<Longrightarrow> quoted (x @ CHR 0x22 # r) = x"
  by (induction x) (auto simp: quoted_def)

lemma parse_disposition_text:
  "parse_disposition (disposition k) = Some (field_name k, None)"
  by (simp add: parse_disposition_def disposition_def Let_def quoted_closed esc_clean
      field_name_clean)

lemma parse_disposition_file:
  "parse_disposition (disposition k @ ''; filename='' @ [CHR 0x22] @ esc n @ [CHR 0x22])
     = Some (field_name k, Some (esc n))"
  by (simp add: parse_disposition_def disposition_def Let_def quoted_closed esc_clean
      field_name_clean)

lemma split_line:
  "CHR 0x0D \<notin> set h \<Longrightarrow> split_all CRLF (h @ CRLF @ r) = h # split_all CRLF r"
  unfolding CRLF_def
  by (rule split_all_append) (simp_all add: not_includes_first)

lemma disposition_clean: "CHR 0x0D \<notin> set (disposition k)"
  by (simp add: disposition_def field_name_clean)

lemma disposition_prefix: "prefix ''Content-Disposition:'' (disposition k @ r)"
  by (simp add: disposition_def)

lemma CRLF_nonempty: "CRLF \<noteq> []"
  by (simp add: CRLF_def)

lemma drop_CRLF: "drop 2 (CRLF @ p) = p"
  by (simp add: CRLF_def)

lemma parse_part_encode: "parse_part (CRLF @ encode_part e) = Some (part_of e)"
proof (cases e)
  case (Pair k v)
  show ?thesis
  proof (cases v)
    case (Text s)
    have "split_all CRLF (encode_part e)
        = disposition k # [] # split_all CRLF (utf8 (normalize_newlines s))"
      using split_line [of "[]"]
      by (simp add: Pair Text encode_part_def split_line disposition_clean)
    moreover have "disposition k \<noteq> []"
      by (simp add: disposition_def)
    ultimately show ?thesis
      using disposition_prefix [of k "[]"]
      unfolding parse_part_def drop_CRLF Let_def
      by (simp add: Pair Text parse_disposition_text join_split [OF CRLF_nonempty])
  next
    case (Binary f)
    let ?h = "disposition k @ ''; filename='' @ [CHR 0x22] @ esc (utf8 (file_name f)) @ [CHR 0x22]"
    have c: "CHR 0x0D \<notin> set ?h"
      using disposition_clean [of k] by (simp add: esc_clean)
    have c2: "CHR 0x0D \<notin> set (''Content-Type: '' @ content_type f)"
      by (simp add: content_type_clean)
    have "encode_part e = ?h @ CRLF @ (''Content-Type: '' @ content_type f) @ CRLF @ [] @ CRLF @ file_bytes f"
      by (simp add: Pair Binary encode_part_def)
    then have "split_all CRLF (encode_part e)
        = ?h # (''Content-Type: '' @ content_type f) # [] # split_all CRLF (file_bytes f)"
      using split_line [OF c] split_line [OF c2] split_line [of "[]"] by simp
    moreover have "?h \<noteq> []"
      by (simp add: disposition_def)
    ultimately show ?thesis
      using disposition_prefix [of k] parse_disposition_file [of k "utf8 (file_name f)"]
      unfolding parse_part_def drop_CRLF Let_def
      by (simp add: Pair Binary join_split [OF CRLF_nonempty])
  qed
qed

lemma regroup:
  "CRLF @ concat (map (\<lambda>e. ''--'' @ B @ CRLF @ encode_part e @ CRLF) fd) @ ''--'' @ B @ z
     = (CRLF @ ''--'' @ B)
         @ concat (map (\<lambda>x. x @ CRLF @ ''--'' @ B) (map (\<lambda>e. CRLF @ encode_part e) fd)) @ z"
  by (induction fd) simp_all

lemma split_pieces:
  assumes "c \<notin> set t" and "\<forall>x\<in>set xs. \<not> str_includes x (c # t)"
    and "\<not> str_includes z (c # t)"
  shows "split_all (c # t) (concat (map (\<lambda>x. x @ c # t) xs) @ z) = xs @ [z]"
  using assms(2)
proof (induction xs)
  case Nil
  from assms(3) show ?case by (simp add: split_all_none)
next
  case (Cons x xs)
  then have "\<not> str_includes x (c # t)" and ih: "split_all (c # t) (concat (map (\<lambda>x. x @ c # t) xs) @ z) = xs @ [z]"
    by simp_all
  from split_all_append [OF assms(1) this(1), of "concat (map (\<lambda>x. x @ c # t) xs) @ z"] ih
  show ?case by simp
qed

lemma encode_part_head: "\<exists>r. encode_part e = CHR ''C'' # r"
  by (cases e; cases "snd e") (simp_all add: encode_part_def disposition_def)

lemma piece_clean:
  assumes "\<not> str_includes (encode_part e) (CRLF @ ''--'' @ B)"
  shows "\<not> str_includes (CRLF @ encode_part e) (CRLF @ ''--'' @ B)"
proof -
  from encode_part_head obtain r where "encode_part e = CHR ''C'' # r" by blast
  with assms show ?thesis by (simp add: CRLF_def)
qed

lemma those_parse_parts:
  "those (map parse_part (map (\<lambda>e. CRLF @ encode_part e) fd)) = Some (map part_of fd)"
  by (induction fd) (simp_all add: parse_part_encode)

lemma takeWhile_pieces:
  "takeWhile (\<lambda>p. \<not> prefix ''--'' p) (map (\<lambda>e. CRLF @ encode_part e) fd @ [''--'' @ CRLF])
     = map (\<lambda>e. CRLF @ encode_part e) fd"
  by (induction fd) (simp_all add: CRLF_def)

lemma multipart_round_trip:
  assumes "boundary_ok B fd"
  shows "multipart_decode B (multipart_encode B fd) = Some (map part_of fd)"
proof -
  let ?D = "CRLF @ ''--'' @ B"
  let ?xs = "map (\<lambda>e. CRLF @ encode_part e) fd"
  have D: "?D = CHR 0x0D # (CHR 0x0A # ''--'' @ B)"
    by (simp add: CRLF_def)
  from assms have b: "CHR 0x0D \<notin> set (CHR 0x0A # ''--'' @ B)"
    by (simp add: boundary_ok_def)
  have "\<forall>x\<in>set ?xs. \<not> str_includes x ?D"
  proof
    fix x
    assume "x \<in> set ?xs"
    then obtain e where e: "e \<in> set fd" and x: "x = CRLF @ encode_part e"
      by auto
    from assms e have "\<not> str_includes (encode_part e) ?D"
      unfolding boundary_ok_def list_all_iff by blast
    then show "\<not> str_includes x ?D"
      unfolding x by (rule piece_clean)
  qed
  then have x: "\<forall>x\<in>set ?xs. \<not> str_includes x (CHR 0x0D # (CHR 0x0A # ''--'' @ B))"
    unfolding D .
  have z: "\<not> str_includes (''--'' @ CRLF) (CHR 0x0D # (CHR 0x0A # ''--'' @ B))"
    by (simp add: CRLF_def)
  have "CRLF @ multipart_encode B fd
      = ?D @ concat (map (\<lambda>x. x @ ?D) ?xs) @ ''--'' @ CRLF"
    unfolding multipart_encode_def by (rule regroup)
  also have "\<dots> = [] @ ?D @ concat (map (\<lambda>x. x @ ?D) ?xs) @ ''--'' @ CRLF"
    by simp
  finally have "split_all ?D (CRLF @ multipart_encode B fd)
      = [] # split_all ?D (concat (map (\<lambda>x. x @ ?D) ?xs) @ ''--'' @ CRLF)"
    unfolding D using split_all_append [OF b, of "[]"] by simp
  also have "split_all ?D (concat (map (\<lambda>x. x @ ?D) ?xs) @ ''--'' @ CRLF) = ?xs @ [''--'' @ CRLF]"
    unfolding D by (rule split_pieces [OF b x z])
  finally have "tl (split_all ?D (CRLF @ multipart_encode B fd)) = ?xs @ [''--'' @ CRLF]"
    by simp
  then show ?thesis
    unfolding multipart_decode_def Let_def
    by (simp only: takeWhile_pieces those_parse_parts length_append length_map list.size)
       simp
qed

lemma normalize_plain:
  "CHR 0x0D \<notin> set s \<Longrightarrow> CHR 0x0A \<notin> set s \<Longrightarrow> normalize_newlines s = s"
  by (induction s rule: normalize_newlines.induct) auto

lemma of_char_bound: "(of_char c :: nat) < 256"
proof -
  have "(of_char c :: nat) mod 256 = of_char c" by simp
  then show ?thesis by (metis mod_less_divisor zero_less_numeral)
qed

lemma utf8_decode_two:
  assumes "q = 2 \<or> q = (3::nat)" and "r < (64::nat)"
  shows "utf8_decode (char_of (192 + q) # char_of (128 + r) # bs)
           = map_option (Cons (char_of (q * 64 + r))) (utf8_decode bs)"
proof -
  from assms(1) have "(192 + q) mod 256 = 192 + q" by auto
  then have o1: "(of_char (char_of (192 + q) :: char) :: nat) = 192 + q"
    by (simp only: of_char_of)
  from assms(2) have "(128 + r) mod 256 = 128 + r" by simp
  then have o2: "(of_char (char_of (128 + r) :: char) :: nat) = 128 + r"
    by (simp only: of_char_of)
  from assms show ?thesis
    by (simp only: utf8_decode.simps Let_def o1 o2) auto
qed

lemma utf8_decode_char: "utf8_decode (utf8_char c @ bs) = map_option (Cons c) (utf8_decode bs)"
proof (cases "(of_char c :: nat) < 128")
  case True
  then show ?thesis by (cases bs) (simp_all add: utf8_char_def)
next
  case False
  define n where "n = (of_char c :: nat)"
  define q where "q = n div 64"
  define r where "r = n mod 64"
  have e: "n = q * 64 + r" and r: "r < 64"
    by (simp_all add: q_def r_def)
  from False have "128 \<le> n" "n < 256"
    using of_char_bound [of c] by (simp_all add: n_def)
  with e r have q: "q = 2 \<or> q = 3" by arith
  have "char_of n = c" by (simp add: n_def)
  with e have c: "char_of (q * 64 + r) = c" by simp
  have u: "utf8_char c = [char_of (192 + q), char_of (128 + r)]"
    using False by (simp add: utf8_char_def n_def q_def r_def Let_def)
  show ?thesis
    unfolding u using utf8_decode_two [OF q r, of bs] c by simp
qed

lemma utf8_round_trip: "utf8_decode (utf8 s) = Some s"
  by (induction s) (simp_all add: utf8_def utf8_decode_char)

lemma plain_names:
  "field_name ''admin_id'' = ''admin_id''"
  "field_name ''admin_type'' = ''admin_type''"
  "field_name ''product_name'' = ''product_name''"
  "field_name ''product_category'' = ''product_category''"
  "field_name ''suggestion_questions'' = ''suggestion_questions''"
  "field_name ''product_description'' = ''product_description''"
  "field_name ''price'' = ''price''"
  "field_name ''videos'' = ''videos''"
  "field_name ''product_file'' = ''product_file''"
  by (simp_all add: field_name_def esc_def utf8_def utf8_char_def)

lemma round_trip_AddAIProduct:
  assumes "boundary_ok B (AddAIProduct_submitData ls fd)"
  shows "round_trip_text B (AddAIProduct_submitData ls fd) ''product_name''
           = Some (normalize_newlines (product_name fd))"
    and "round_trip_text B (AddAIProduct_submitData ls fd) ''product_category''
           = Some (normalize_newlines (product_category fd))"
    and "round_trip_text B (AddAIProduct_submitData ls fd) ''suggestion_questions''
           = Some (normalize_newlines (suggestion_questions fd))"
    and "round_trip_text B (AddAIProduct_submitData ls fd) ''price''
           = Some (normalize_newlines (price fd))"
    and "round_trip_assets B (AddAIProduct_submitData ls fd) = Some (map file_bytes (videos fd))"
proof -
  note d = multipart_round_trip [OF assms]
  have p: "map part_of (AddAIProduct_submitData ls fd) =
     [part_of (''admin_id'', Text (or_else (getItem ls ''admin_id'') default_admin_id)),
      part_of (''admin_type'', Text (or_else (getItem ls ''admin_type'') default_admin_type)),
      part_of (''product_name'', Text (product_name fd)),
      part_of (''product_category'', Text (product_category fd)),
      part_of (''suggestion_questions'', Text (suggestion_questions fd)),
      part_of (''price'', Text (price fd))]
     @ map (\<lambda>video. part_of (''videos'', Binary video)) (videos fd)"
    by (simp add: AddAIProduct_submitData_eq comp_def del: part_of.simps)
  show "round_trip_text B (AddAIProduct_submitData ls fd) ''product_name''
           = Some (normalize_newlines (product_name fd))"
    unfolding round_trip_text_def d p
    by (simp add: decode_text_def plain_names utf8_round_trip)
  show "round_trip_text B (AddAIProduct_submitData ls fd) ''product_category''
           = Some (normalize_newlines (product_category fd))"
    unfolding round_trip_text_def d p
    by (simp add: decode_text_def plain_names utf8_round_trip)
  show "round_trip_text B (AddAIProduct_submitData ls fd) ''suggestion_questions''
           = Some (normalize_newlines (suggestion_questions fd))"
    unfolding round_trip_text_def d p
    by (simp add: decode_text_def plain_names utf8_round_trip)
  show "round_trip_text B (AddAIProduct_submitData ls fd) ''price''
           = Some (normalize_newlines (price fd))"
    unfolding round_trip_text_def d p
    by (simp add: decode_text_def plain_names utf8_round_trip)
  show "round_trip_assets B (AddAIProduct_submitData ls fd) = Some (map file_bytes (videos fd))"
    unfolding round_trip_assets_def d p
    by (simp add: decode_assets_def comp_def)
qed

lemma round_trip_UploadDigitalProduct:
  assumes "boundary_ok B (UploadDigitalProduct_submitData ls fd f)"
  shows "round_trip_text B (UploadDigitalProduct_submitData ls fd f) ''product_name''
           = Some (normalize_newlines (product_name fd))"
    and "round_trip_text B (UploadDigitalProduct_submitData ls fd f) ''product_category''
           = Some (normalize_newlines (product_category fd))"
    and "round_trip_text B (UploadDigitalProduct_submitData ls fd f) ''product_description''
           = Some (normalize_newlines (product_description fd))"
    and "round_trip_text B (UploadDigitalProduct_submitData ls fd f) ''price''
           = Some (normalize_newlines (price fd))"
    and "round_trip_assets B (UploadDigitalProduct_submitData ls fd f) = Some [file_bytes f]"
proof -
  note d = multipart_round_trip [OF assms]
  note e = UploadDigitalProduct_submitData_eq
  show "round_trip_text B (UploadDigitalProduct_submitData ls fd f) ''product_name''
           = Some (normalize_newlines (product_name fd))"
    unfolding round_trip_text_def d
    by (simp add: e decode_text_def plain_names utf8_round_trip)
  show "round_trip_text B (UploadDigitalProduct_submitData ls fd f) ''product_category''
           = Some (normalize_newlines (product_category fd))"
    unfolding round_trip_text_def d
    by (simp add: e decode_text_def plain_names utf8_round_trip)
  show "round_trip_text B (UploadDigitalProduct_submitData ls fd f) ''product_description''
           = Some (normalize_newlines (product_description fd))"
    unfolding round_trip_text_def d
    by (simp add: e decode_text_def plain_names utf8_round_trip)
  show "round_trip_text B (UploadDigitalProduct_submitData ls fd f) ''price''
           = Some (normalize_newlines (price fd))"
    unfolding round_trip_text_def d
    by (simp add: e decode_text_def plain_names utf8_round_trip)
  show "round_trip_assets B (UploadDigitalProduct_submitData ls fd f) = Some [file_bytes f]"
    unfolding round_trip_assets_def d
    by (simp add: e decode_assets_def)
qed

lemma boundary_ok_lines:
  "boundary_ok browser_boundary
     (UploadDigitalProduct_submitData no_identity (formData digital_page_lines) pdf_file)"
  by (simp add: boundary_ok_def UploadDigitalProduct_submitData_eq digital_page_lines_def
      pdf_file_def browser_boundary_def no_identity_def getItem_def or_else_def
      default_admin_id_def default_admin_type_def encode_part_def disposition_def field_name_def esc_def
      utf8_def utf8_char_def CRLF_def content_type_def printable_def)

lemma boundary_ok_digital:
  "boundary_ok browser_boundary
     (UploadDigitalProduct_submitData no_identity (formData digital_page1) pdf_file)"
  by (simp add: boundary_ok_def UploadDigitalProduct_submitData_eq digital_page1_def
      pdf_file_def browser_boundary_def no_identity_def getItem_def or_else_def
      default_admin_id_def default_admin_type_def encode_part_def disposition_def field_name_def esc_def
      utf8_def utf8_char_def CRLF_def content_type_def printable_def)

lemma boundary_ok_course:
  "boundary_ok browser_boundary (AddAIProduct_submitData no_identity (formData ai_page1))"
  by (simp add: boundary_ok_def AddAIProduct_submitData_eq ai_page1_def video_a_def video_b_def
      browser_boundary_def no_identity_def getItem_def or_else_def
      default_admin_id_def default_admin_type_def encode_part_def disposition_def field_name_def esc_def
      utf8_def utf8_char_def CRLF_def content_type_def printable_def)

text \<open>
  The condition on the boundary is needed: where a file holds the delimiter, the body is
  cut inside the file and the decoder returns the bytes in front of it.
\<close>

lemma boundary_clash:
  "\<not> boundary_ok browser_boundary
       (UploadDigitalProduct_submitData no_identity (formData digital_page1) clash_file)"
  "round_trip_assets browser_boundary
     (UploadDigitalProduct_submitData no_identity (formData digital_page1) clash_file)
   = Some [''ab'']"
  "file_bytes clash_file \<noteq> ''ab''"
  by code_simp+

section \<open>The claims\<close>

subsection \<open>C1: one call or two\<close>

text \<open>
  C1 as stated fails for AddAIProduct, the page the panels mount: its \<open>handleSubmit\<close>
  issues a single request, and that request already carries the videos; no call with
  metadata only comes before it.
\<close>

theorem C1_counterexample:
  "snd (AddAIProduct_handleSubmit no_identity offline ai_page1)
     = [AddAIProduct_request no_identity (formData ai_page1)]
   \<and> carries_assets (body (AddAIProduct_request no_identity (formData ai_page1)))"
  by (simp add: AddAIProduct_requests AddAIProduct_request_def AddAIProduct_submitData_eq
      ai_page1_def)

text \<open>
  C1, amended.  \<open>handleSubmit\<close> of AddAIProduct issues exactly one request, which
  creates and processes the course.  \<open>handleAISubmit\<close> of AddProduct issues the
  record-creation request first, and it holds no file; when that call is rejected or its
  body reports a falsy \<open>success\<close>, no further request is issued; when the body reports
  success, exactly one processing request follows, built from the product identifier of
  that body.
\<close>

theorem C1_record_before_assets:
  "snd (AddAIProduct_handleSubmit ls fetch st) = [AddAIProduct_request ls (formData st)]
   \<and> (\<exists>rest. snd (handleAISubmit ls' fetch' ast) = AddProduct_createRequest ls' ast # rest
         \<and> \<not> carries_assets (body (AddProduct_createRequest ls' ast))
         \<and> (reply_status (fetch' (AddProduct_createRequest ls' ast)) = Failed \<longrightarrow> rest = [])
         \<and> (\<forall>d. fetch' (AddProduct_createRequest ls' ast) = Parsed d \<and> success d \<longrightarrow>
               rest = [AddProduct_processRequest ls' ast (created_product_id (members d))]))"
  by (auto simp add: AddAIProduct_requests handleAISubmit_trace reply_status_def
      AddProduct_createRequest_def Let_def split: reply.split)

theorem C1_witness:
  "reply_status (create_refused (AddProduct_createRequest no_identity ap_state1)) = Failed
   \<and> snd (handleAISubmit no_identity create_refused ap_state1)
       = [AddProduct_createRequest no_identity ap_state1]
   \<and> created_then_refused (AddProduct_createRequest no_identity ap_state1) = Parsed created_body
   \<and> success created_body
   \<and> snd (handleAISubmit no_identity created_then_refused ap_state1)
       = [AddProduct_createRequest no_identity ap_state1,
          AddProduct_processRequest no_identity ap_state1 (Some ''abc-123'')]"
proof -
  have h1: "reply_status (create_refused (AddProduct_createRequest no_identity ap_state1)) = Failed"
    by (simp add: reply_status_def create_refused_def)
  have h2: "created_then_refused (AddProduct_createRequest no_identity ap_state1) = Parsed created_body"
    by (rule created_then_refused_1)
  have h3: "success created_body" "created_product_id (members created_body) = Some ''abc-123''"
    by (simp_all add: created_body_def)
  from C1_record_before_assets [of no_identity offline ai_page1 no_identity create_refused ap_state1]
  obtain rest where
    "snd (handleAISubmit no_identity create_refused ap_state1)
       = AddProduct_createRequest no_identity ap_state1 # rest"
    and "reply_status (create_refused (AddProduct_createRequest no_identity ap_state1)) = Failed
           \<longrightarrow> rest = []"
    by (elim conjE exE)
  with h1 have a: "snd (handleAISubmit no_identity create_refused ap_state1)
       = [AddProduct_createRequest no_identity ap_state1]"
    by simp
  from C1_record_before_assets
    [of no_identity offline ai_page1 no_identity created_then_refused ap_state1]
  obtain rest where
    "snd (handleAISubmit no_identity created_then_refused ap_state1)
       = AddProduct_createRequest no_identity ap_state1 # rest"
    and "\<forall>d. created_then_refused (AddProduct_createRequest no_identity ap_state1) = Parsed d
               \<and> success d
           \<longrightarrow> rest = [AddProduct_processRequest no_identity ap_state1
                         (created_product_id (members d))]"
    by (elim conjE exE)
  with h2 h3 have b: "snd (handleAISubmit no_identity created_then_refused ap_state1)
       = [AddProduct_createRequest no_identity ap_state1,
          AddProduct_processRequest no_identity ap_state1 (Some ''abc-123'')]"
    by simp
  from h1 h2 h3 a b show ?thesis by simp
qed

subsection \<open>C2: the outcome of a course submission\<close>

text \<open>
  C2 as stated fails.  AddAIProduct ends in the same state whether two videos or one
  were submitted when one item comes back, although the claim asks for
  \<open>PartiallyProcessed\<close> in the first case and \<open>AllProcessed\<close> in the second.  And in
  AddProduct a created record followed by a rejected processing call leaves the same
  state as a rejected creation call: no partial failure is reported and no product
  identifier is kept.
\<close>

theorem C2_counterexample:
  "fst (AddAIProduct_handleSubmit no_identity one_item ai_page1)
     = fst (AddAIProduct_handleSubmit no_identity one_item ai_page_one)
   \<and> spec_overall_status (length (videos (formData ai_page1)))
        (spec_answer (one_item (AddAIProduct_request no_identity (formData ai_page1))))
      = PartiallyProcessed
   \<and> spec_overall_status (length (videos (formData ai_page_one)))
        (spec_answer (one_item (AddAIProduct_request no_identity (formData ai_page_one))))
      = AllProcessed
   \<and> fst (handleAISubmit no_identity created_then_offline ap_state1)
     = fst (handleAISubmit no_identity offline ap_state1)"
  by (simp add: AddAIProduct_handleSubmit_def Let_def one_item_def one_item_body_def
      ai_page1_def ai_page_one_def spec_overall_status_def spec_answer_def
      handleAISubmit_def created_then_offline_def created_body_def offline_def
      AddProduct_createRequest_def AddProduct_processRequest_def)

text \<open>
  C2, amended.  The pages derive no status from the returned items.  AddAIProduct ends
  with its success message exactly when the reply parses with a truthy \<open>success\<close>, and
  then holds the member \<open>data\<close> of the body and an emptied form, whatever the numbers
  of videos sent and of items returned.  In AddProduct a created record followed by a
  processing body with a falsy \<open>success\<close> leaves the message \<open>Product created but AI
  processing failed: \<close> with the server's text, and the state otherwise as it was.
\<close>

theorem C2_outcome_follows_flag:
  "(message (fst (AddAIProduct_handleSubmit ls fetch st))
        = ''AI training product created and processed successfully!''
      \<longleftrightarrow> reply_status (fetch (AddAIProduct_request ls (formData st))) = Succeeded)
   \<and> (\<forall>d. fetch (AddAIProduct_request ls (formData st)) = Parsed d \<and> success d \<longrightarrow>
         fst (AddAIProduct_handleSubmit ls fetch st)
           = \<lparr>formData = ai_initial_form, loading = False,
              message = ''AI training product created and processed successfully!'',
              responseData = members d\<rparr>)
   \<and> (\<forall>p a. fetch' (AddProduct_createRequest ls' ast) = Parsed p \<and> success p
           \<and> fetch' (AddProduct_processRequest ls' ast (created_product_id (members p))) = Parsed a
           \<and> \<not> success a \<longrightarrow>
         fst (handleAISubmit ls' fetch' ast)
           = ast\<lparr>ap_loading := False,
                 ap_message := ''Product created but AI processing failed: ''
                                 @ template (resp_message a) ''undefined''\<rparr>)"
  by (auto simp add: AddAIProduct_handleSubmit_def handleAISubmit_def reply_status_def Let_def
      createRequest_ignores_progress processRequest_ignores_progress split: reply.split)

theorem C2_witness:
  "one_item (AddAIProduct_request no_identity (formData ai_page1)) = Parsed one_item_body
   \<and> success one_item_body
   \<and> fst (AddAIProduct_handleSubmit no_identity one_item ai_page1)
       = \<lparr>formData = ai_initial_form, loading = False,
          message = ''AI training product created and processed successfully!'',
          responseData = members one_item_body\<rparr>
   \<and> created_then_refused (AddProduct_createRequest no_identity ap_state1) = Parsed created_body
   \<and> success created_body
   \<and> created_then_refused (AddProduct_processRequest no_identity ap_state1
        (created_product_id (members created_body))) = Parsed refused_body
   \<and> \<not> success refused_body
   \<and> fst (handleAISubmit no_identity created_then_refused ap_state1)
       = ap_state1\<lparr>ap_loading := False,
                   ap_message := ''Product created but AI processing failed: no GPU''\<rparr>"
proof -
  have h1: "one_item (AddAIProduct_request no_identity (formData ai_page1)) = Parsed one_item_body"
    by (simp add: one_item_def)
  have h2: "success one_item_body"
    by (simp add: one_item_body_def)
  have h3: "created_then_refused (AddProduct_createRequest no_identity ap_state1) = Parsed created_body"
    by (rule created_then_refused_1)
  have h4: "success created_body"
    by (simp add: created_body_def)
  have h5: "created_then_refused (AddProduct_processRequest no_identity ap_state1
        (created_product_id (members created_body))) = Parsed refused_body"
    by (rule created_then_refused_2)
  have h6: "\<not> success refused_body"
    by (simp add: refused_body_def)
  have t: "template (resp_message refused_body) ''undefined'' = ''no GPU''"
    by (simp add: refused_body_def template_def)
  note c = C2_outcome_follows_flag [of no_identity one_item ai_page1 created_then_refused
      no_identity ap_state1]
  from c h1 h2 have a: "fst (AddAIProduct_handleSubmit no_identity one_item ai_page1)
       = \<lparr>formData = ai_initial_form, loading = False,
          message = ''AI training product created and processed successfully!'',
          responseData = members one_item_body\<rparr>"
    by blast
  from c h3 h4 h5 h6 have "fst (handleAISubmit no_identity created_then_refused ap_state1)
       = ap_state1\<lparr>ap_loading := False,
                   ap_message := ''Product created but AI processing failed: ''
                                   @ template (resp_message refused_body) ''undefined''\<rparr>"
    by blast
  then have b: "fst (handleAISubmit no_identity created_then_refused ap_state1)
       = ap_state1\<lparr>ap_loading := False,
                   ap_message := ''Product created but AI processing failed: no GPU''\<rparr>"
    by (simp add: t)
  from h1 h2 h3 h4 h5 h6 a b show ?thesis by simp
qed

subsection \<open>C4: the videos keep the selection order\<close>

text \<open>
  C4.  Let the operator select the files \<open>files\<close> and then edit any text inputs.  The
  one request that \<open>handleSubmit\<close> of AddAIProduct issues has a multipart body in which
  the file entries are exactly the selected files, all under the name \<open>videos\<close> and in
  the order of the selection: the file at position \<open>i\<close> of the selection is the entry
  at position \<open>6 + i\<close> of the body, behind the six text entries.  Neither
  \<open>handleVideosChange\<close>, \<open>handleInputChange\<close> nor \<open>handleSubmit\<close> reorders them.
\<close>

theorem C4_videos_in_selection_order:
  "\<exists>b. map body (snd (AddAIProduct_handleSubmit ls fetch
            (fold (\<lambda>(k, v). AddAIProduct_handleInputChange k v) edits
               (handleVideosChange files st)))) = [FormBody b]
       \<and> filter (\<lambda>e. is_binary (snd e)) b = map (\<lambda>f. (''videos'', Binary f)) files
       \<and> getAll b ''videos'' = map Binary files
       \<and> (\<forall>i<length files. b ! (6 + i) = (''videos'', Binary (files ! i)))"
  using submitData_nth_video videos_after_selection
  by (simp add: AddAIProduct_requests AddAIProduct_request_def submitData_binary_entries
      submitData_getAll_videos)

theorem C4_witness:
  "\<exists>b. map body (snd (AddAIProduct_handleSubmit Map.empty (\<lambda>r. Threw ''Failed to fetch'')
            (fold (\<lambda>(k, v). AddAIProduct_handleInputChange k v)
               [(Product_name, ''SQL''), (Price, ''5'')]
               (handleVideosChange [video_b, video_a] ai_page0)))) = [FormBody b]
      \<and> getAll b ''videos'' = [Binary video_b, Binary video_a]
      \<and> b ! 6 = (''videos'', Binary video_b) \<and> b ! 7 = (''videos'', Binary video_a)"
proof -
  have "\<exists>b. map body (snd (AddAIProduct_handleSubmit Map.empty (\<lambda>r. Threw ''Failed to fetch'')
            (fold (\<lambda>(k, v). AddAIProduct_handleInputChange k v)
               [(Product_name, ''SQL''), (Price, ''5'')]
               (handleVideosChange [video_b, video_a] ai_page0)))) = [FormBody b]
       \<and> filter (\<lambda>e. is_binary (snd e)) b = map (\<lambda>f. (''videos'', Binary f)) [video_b, video_a]
       \<and> getAll b ''videos'' = map Binary [video_b, video_a]
       \<and> (\<forall>i<length [video_b, video_a].
             b ! (6 + i) = (''videos'', Binary ([video_b, video_a] ! i)))"
    by (rule C4_videos_in_selection_order)
  then obtain b where
    b: "map body (snd (AddAIProduct_handleSubmit Map.empty (\<lambda>r. Threw ''Failed to fetch'')
            (fold (\<lambda>(k, v). AddAIProduct_handleInputChange k v)
               [(Product_name, ''SQL''), (Price, ''5'')]
               (handleVideosChange [video_b, video_a] ai_page0)))) = [FormBody b]"
    and g: "getAll b ''videos'' = map Binary [video_b, video_a]"
    and n: "\<forall>i<length [video_b, video_a].
              b ! (6 + i) = (''videos'', Binary ([video_b, video_a] ! i))"
    by (elim exE conjE)
  from n have "b ! (6 + 0) = (''videos'', Binary ([video_b, video_a] ! 0))"
    by (elim allE [of _ 0]) simp
  moreover from n have "b ! (6 + 1) = (''videos'', Binary ([video_b, video_a] ! 1))"
    by (elim allE [of _ 1]) simp
  ultimately show ?thesis using b g by auto
qed

subsection \<open>C3: the tone of the message box\<close>

text \<open>
  C3 fails on AddProduct.  Its message box tests the message for \<open>Error\<close> and
  \<open>failed\<close>, so a rejected call, whose message is \<open>Network error: \<close> followed by the
  text of the exception, is shown in the success colours unless that text happens to
  hold one of the two words: with \<open>Failed to fetch\<close> the box is informational although
  the submission failed, while the same rejection with the text \<open>Load failed\<close>, and a
  refused creation, which failed as well, are shown as errors.  AddAIProduct and UploadDigitalProduct test \<open>Error\<close> and \<open>error\<close> and show
  the same rejection as an error; for them the tone follows the outcome for every
  message (\<open>AddAIProduct_tone_final\<close>, \<open>UploadDigitalProduct_tone_final\<close>).
\<close>

theorem C3_AddProduct_tone_reads_message:
  "AddProduct_status no_identity offline ap_state1 = Failed
   \<and> ap_message (fst (handleAISubmit no_identity offline ap_state1))
       = ''Network error: Failed to fetch''
   \<and> AddProduct_tone (ap_message (fst (handleAISubmit no_identity offline ap_state1)))
       = Informational
   \<and> AddProduct_status no_identity load_failed ap_state1 = Failed
   \<and> AddProduct_tone (ap_message (fst (handleAISubmit no_identity load_failed ap_state1)))
       = ErrorTone
   \<and> AddProduct_status no_identity create_refused ap_state1 = Failed
   \<and> AddProduct_tone (ap_message (fst (handleAISubmit no_identity create_refused ap_state1)))
       = ErrorTone
   \<and> AddAIProduct_status no_identity offline ai_page1 = Failed
   \<and> AddAIProduct_tone (message (fst (AddAIProduct_handleSubmit no_identity offline ai_page1)))
       = ErrorTone"
proof (intro conjI)
  show "AddProduct_status no_identity offline ap_state1 = Failed"
    by (simp add: AddProduct_status_def offline_def)
  show "ap_message (fst (handleAISubmit no_identity offline ap_state1))
       = ''Network error: Failed to fetch''"
    by (simp add: handleAISubmit_def offline_def Let_def)
  show "AddProduct_tone (ap_message (fst (handleAISubmit no_identity offline ap_state1)))
       = Informational"
    by (simp add: handleAISubmit_def offline_def Let_def AddProduct_tone_def)
  show "AddProduct_status no_identity load_failed ap_state1 = Failed"
    by (simp add: AddProduct_status_def load_failed_def)
  show "AddProduct_tone (ap_message (fst (handleAISubmit no_identity load_failed ap_state1)))
       = ErrorTone"
    by (simp add: handleAISubmit_def load_failed_def Let_def AddProduct_tone_def)
  show "AddProduct_status no_identity create_refused ap_state1 = Failed"
    by (simp add: AddProduct_status_def create_refused_def refused_body_def)
  show "AddProduct_tone (ap_message (fst (handleAISubmit no_identity create_refused ap_state1)))
       = ErrorTone"
    by (simp add: handleAISubmit_def create_refused_def refused_body_def Let_def
        AddProduct_tone_def template_def)
  show "AddAIProduct_status no_identity offline ai_page1 = Failed"
    by (simp add: AddAIProduct_status_def reply_status_def offline_def)
  show "AddAIProduct_tone (message (fst (AddAIProduct_handleSubmit no_identity offline ai_page1)))
       = ErrorTone"
    by (simp add: AddAIProduct_handleSubmit_def offline_def Let_def AddAIProduct_tone_def)
qed

subsection \<open>C9: the text fields and the files can be read back\<close>

text \<open>
  C9 as stated fails for a text field that holds a line break.  A description of two
  lines, as the textarea of UploadDigitalProduct gives it, holds a LF between them; the
  body on the wire holds CR LF there, and that is what the decoder returns: the field is
  not recovered byte for byte.
\<close>

theorem C9_counterexample:
  "map body (snd (UploadDigitalProduct_handleSubmit no_identity offline digital_page_lines))
     = [FormBody (UploadDigitalProduct_submitData no_identity (formData digital_page_lines)
                    pdf_file)]
   \<and> product_description (formData digital_page_lines) = ''Joins'' @ [CHR 0x0A] @ ''Indexes''
   \<and> round_trip_text browser_boundary
        (UploadDigitalProduct_submitData no_identity (formData digital_page_lines) pdf_file)
        ''product_description''
       = Some (''Joins'' @ [CHR 0x0D, CHR 0x0A] @ ''Indexes'')
   \<and> round_trip_text browser_boundary
        (UploadDigitalProduct_submitData no_identity (formData digital_page_lines) pdf_file)
        ''product_description''
       \<noteq> Some (product_description (formData digital_page_lines))"
proof -
  have f: "product_file (formData digital_page_lines) = Some pdf_file"
    by (simp add: digital_page_lines_def)
  have b: "map body (snd (UploadDigitalProduct_handleSubmit no_identity offline digital_page_lines))
     = [FormBody (UploadDigitalProduct_submitData no_identity (formData digital_page_lines)
                    pdf_file)]"
    by (simp add: UploadDigitalProduct_requests [OF f] UploadDigitalProduct_request_def)
  have p: "product_description (formData digital_page_lines) = ''Joins'' @ [CHR 0x0A] @ ''Indexes''"
    by (simp add: digital_page_lines_def)
  have r: "round_trip_text browser_boundary
        (UploadDigitalProduct_submitData no_identity (formData digital_page_lines) pdf_file)
        ''product_description''
       = Some (''Joins'' @ [CHR 0x0D, CHR 0x0A] @ ''Indexes'')"
    unfolding round_trip_UploadDigitalProduct(3) [OF boundary_ok_lines] p
    by (simp add: CRLF_def)
  have n: "round_trip_text browser_boundary
        (UploadDigitalProduct_submitData no_identity (formData digital_page_lines) pdf_file)
        ''product_description''
       \<noteq> Some (product_description (formData digital_page_lines))"
    unfolding r p by simp
  from b p r n show ?thesis
    by (intro conjI)
qed

text \<open>
  C9, amended.  Let the boundary that the browser chose hold no CR and let the
  delimiter occur in no encoded part, which is what RFC 7578 requires of a boundary
  (without it the body cannot be cut into its parts again, \<open>boundary_clash\<close>).  Then
  decoding the body that either upload page
  sends gives back the product name, the category, the suggestion questions or the
  description, and the price with every line break written as CR LF, hence byte for
  byte when the field holds neither CR nor LF; and it gives back the bytes of every
  file, in body order, hence each with its exact byte length.  For the digital page a
  file must have been selected, otherwise no request is sent.
\<close>

theorem C9_round_trip:
  assumes "product_file (formData dst) = Some f"
    and "boundary_ok B (AddAIProduct_submitData ls (formData st))"
    and "boundary_ok B' (UploadDigitalProduct_submitData ls' (formData dst) f)"
  shows "map body (snd (AddAIProduct_handleSubmit ls fetch st))
           = [FormBody (AddAIProduct_submitData ls (formData st))]
       \<and> round_trip_text B (AddAIProduct_submitData ls (formData st)) ''product_name''
           = Some (normalize_newlines (product_name (formData st)))
       \<and> round_trip_text B (AddAIProduct_submitData ls (formData st)) ''product_category''
           = Some (normalize_newlines (product_category (formData st)))
       \<and> round_trip_text B (AddAIProduct_submitData ls (formData st)) ''suggestion_questions''
           = Some (normalize_newlines (suggestion_questions (formData st)))
       \<and> round_trip_text B (AddAIProduct_submitData ls (formData st)) ''price''
           = Some (normalize_newlines (price (formData st)))
       \<and> round_trip_assets B (AddAIProduct_submitData ls (formData st))
           = Some (map file_bytes (videos (formData st)))
       \<and> map_option (map length) (round_trip_assets B (AddAIProduct_submitData ls (formData st)))
           = Some (map file_size (videos (formData st)))
       \<and> map body (snd (UploadDigitalProduct_handleSubmit ls' fetch' dst))
           = [FormBody (UploadDigitalProduct_submitData ls' (formData dst) f)]
       \<and> round_trip_text B' (UploadDigitalProduct_submitData ls' (formData dst) f)
            ''product_name''
           = Some (normalize_newlines (product_name (formData dst)))
       \<and> round_trip_text B' (UploadDigitalProduct_submitData ls' (formData dst) f)
            ''product_category''
           = Some (normalize_newlines (product_category (formData dst)))
       \<and> round_trip_text B' (UploadDigitalProduct_submitData ls' (formData dst) f)
            ''product_description''
           = Some (normalize_newlines (product_description (formData dst)))
       \<and> round_trip_text B' (UploadDigitalProduct_submitData ls' (formData dst) f) ''price''
           = Some (normalize_newlines (price (formData dst)))
       \<and> round_trip_assets B' (UploadDigitalProduct_submitData ls' (formData dst) f)
           = Some [file_bytes f]
       \<and> map_option (map length)
            (round_trip_assets B' (UploadDigitalProduct_submitData ls' (formData dst) f))
           = Some [file_size f]
       \<and> (\<forall>v. CHR 0x0D \<notin> set v \<and> CHR 0x0A \<notin> set v \<longrightarrow> normalize_newlines v = v)"
proof -
  note a = round_trip_AddAIProduct [OF assms(2)]
  note u = round_trip_UploadDigitalProduct [OF assms(3)]
  have b1: "map body (snd (AddAIProduct_handleSubmit ls fetch st))
           = [FormBody (AddAIProduct_submitData ls (formData st))]"
    by (simp add: AddAIProduct_requests AddAIProduct_request_def)
  have b2: "map body (snd (UploadDigitalProduct_handleSubmit ls' fetch' dst))
           = [FormBody (UploadDigitalProduct_submitData ls' (formData dst) f)]"
    by (simp add: UploadDigitalProduct_requests [OF assms(1)] UploadDigitalProduct_request_def)
  have l1: "map_option (map length) (round_trip_assets B (AddAIProduct_submitData ls (formData st)))
           = Some (map file_size (videos (formData st)))"
    unfolding a(5) by (simp add: file_size_def comp_def)
  have l2: "map_option (map length)
            (round_trip_assets B' (UploadDigitalProduct_submitData ls' (formData dst) f))
           = Some [file_size f]"
    unfolding u(5) by (simp add: file_size_def)
  have n: "\<forall>v. CHR 0x0D \<notin> set v \<and> CHR 0x0A \<notin> set v \<longrightarrow> normalize_newlines v = v"
    by (simp add: normalize_plain)
  from b1 a l1 b2 u l2 n show ?thesis
    by (intro conjI)
qed

theorem C9_witness:
  "product_file (formData digital_page1) = Some pdf_file
   \<and> boundary_ok browser_boundary (AddAIProduct_submitData no_identity (formData ai_page1))
   \<and> boundary_ok browser_boundary
        (UploadDigitalProduct_submitData no_identity (formData digital_page1) pdf_file)
   \<and> round_trip_text browser_boundary (AddAIProduct_submitData no_identity (formData ai_page1))
        ''product_name'' = Some ''Intro to SQL''
   \<and> round_trip_text browser_boundary (AddAIProduct_submitData no_identity (formData ai_page1))
        ''price'' = Some ''19.99''
   \<and> map_option (map length)
        (round_trip_assets browser_boundary
           (AddAIProduct_submitData no_identity (formData ai_page1))) = Some [4, 2]
   \<and> round_trip_text browser_boundary
        (UploadDigitalProduct_submitData no_identity (formData digital_page1) pdf_file)
        ''product_description'' = Some ''A first course''
   \<and> round_trip_assets browser_boundary
        (UploadDigitalProduct_submitData no_identity (formData digital_page1) pdf_file)
       = Some [''%PDF-1.7'']"
proof -
  have h: "product_file (formData digital_page1) = Some pdf_file"
    by (simp add: digital_page1_def)
  have s: "map file_size (videos (formData ai_page1)) = [4, 2]"
    by (simp add: ai_page1_def video_a_def video_b_def file_size_def)
  have t: "normalize_newlines (product_name (formData ai_page1)) = ''Intro to SQL''"
    "normalize_newlines (price (formData ai_page1)) = ''19.99''"
    "normalize_newlines (product_description (formData digital_page1)) = ''A first course''"
    by (simp_all add: ai_page1_def digital_page1_def)
  have p: "file_bytes pdf_file = ''%PDF-1.7''"
    by (simp add: pdf_file_def)
  from C9_round_trip [where fetch = offline and fetch' = offline,
      OF h boundary_ok_course boundary_ok_digital] h boundary_ok_course
    boundary_ok_digital
  show ?thesis
    unfolding s t p by - (elim conjE, (intro conjI; assumption))
qed

subsection \<open>C10: the fallback actor\<close>

text \<open>
  C10.  When the storage holds neither \<open>admin_id\<close> nor \<open>admin_type\<close>, the request of
  either upload page is still sent and its body names the actor
  \<open>550e8400-e29b-41d4-a716-446655440000\<close> of type \<open>super_admin\<close>, once each.  The
  page ends in the same state as with any other storage content: the missing identity
  neither blocks the submission nor adds an error.  (The digital page sends a request
  only when a file is selected, with or without a stored identity.)
\<close>

theorem C10_fallback_actor:
  assumes "getItem ls ''admin_id'' = None" and "getItem ls ''admin_type'' = None"
    and "product_file (formData dst) = Some f"
  shows "(\<exists>b. map body (snd (AddAIProduct_handleSubmit ls fetch st)) = [FormBody b]
            \<and> getAll b ''admin_id'' = [Text ''550e8400-e29b-41d4-a716-446655440000'']
            \<and> getAll b ''admin_type'' = [Text ''super_admin''])
       \<and> (\<exists>b. map body (snd (UploadDigitalProduct_handleSubmit ls fetch' dst)) = [FormBody b]
            \<and> getAll b ''admin_id'' = [Text ''550e8400-e29b-41d4-a716-446655440000'']
            \<and> getAll b ''admin_type'' = [Text ''super_admin''])
       \<and> fst (AddAIProduct_handleSubmit ls (\<lambda>req. r) st)
            = fst (AddAIProduct_handleSubmit ls' (\<lambda>req. r) st)
       \<and> fst (UploadDigitalProduct_handleSubmit ls (\<lambda>req. r') dst)
            = fst (UploadDigitalProduct_handleSubmit ls' (\<lambda>req. r') dst)"
proof (intro conjI)
  show "\<exists>b. map body (snd (AddAIProduct_handleSubmit ls fetch st)) = [FormBody b]
            \<and> getAll b ''admin_id'' = [Text ''550e8400-e29b-41d4-a716-446655440000'']
            \<and> getAll b ''admin_type'' = [Text ''super_admin'']"
    using assms(1,2)
    by (simp add: AddAIProduct_requests AddAIProduct_request_def AddAIProduct_submitData_eq
        getAll_append getAll_videos_other or_else_def default_admin_id_def default_admin_type_def)
       (simp add: getAll_def)
  show "\<exists>b. map body (snd (UploadDigitalProduct_handleSubmit ls fetch' dst)) = [FormBody b]
            \<and> getAll b ''admin_id'' = [Text ''550e8400-e29b-41d4-a716-446655440000'']
            \<and> getAll b ''admin_type'' = [Text ''super_admin'']"
    using assms
    by (simp add: UploadDigitalProduct_requests UploadDigitalProduct_request_def
        UploadDigitalProduct_submitData_eq or_else_def default_admin_id_def
        default_admin_type_def getAll_def)
  show "fst (AddAIProduct_handleSubmit ls (\<lambda>req. r) st)
            = fst (AddAIProduct_handleSubmit ls' (\<lambda>req. r) st)"
    by (simp add: AddAIProduct_handleSubmit_def Let_def split: reply.split)
  show "fst (UploadDigitalProduct_handleSubmit ls (\<lambda>req. r') dst)
            = fst (UploadDigitalProduct_handleSubmit ls' (\<lambda>req. r') dst)"
    by (simp add: UploadDigitalProduct_handleSubmit_def Let_def split: reply.split option.split)
qed

theorem C10_witness:
  "getItem Map.empty ''admin_id'' = None \<and> getItem Map.empty ''admin_type'' = None
   \<and> product_file (formData digital_page1) = Some pdf_file
   \<and> (\<exists>b. map body (snd (AddAIProduct_handleSubmit Map.empty (\<lambda>req. Threw ''offline'') ai_page1))
             = [FormBody b]
        \<and> getAll b ''admin_id'' = [Text ''550e8400-e29b-41d4-a716-446655440000'']
        \<and> getAll b ''admin_type'' = [Text ''super_admin''])
   \<and> (\<exists>b. map body (snd (UploadDigitalProduct_handleSubmit Map.empty
             (\<lambda>req. Threw ''offline'') digital_page1)) = [FormBody b]
        \<and> getAll b ''admin_id'' = [Text ''550e8400-e29b-41d4-a716-446655440000'']
        \<and> getAll b ''admin_type'' = [Text ''super_admin''])"
proof -
  have h1: "getItem Map.empty ''admin_id'' = None" and h2: "getItem Map.empty ''admin_type'' = None"
    by (simp_all add: getItem_def)
  have h3: "product_file (formData digital_page1) = Some pdf_file"
    by (simp add: digital_page1_def)
  from C10_fallback_actor [OF h1 h2 h3, of "\<lambda>req. Threw ''offline''" ai_page1
      "\<lambda>req. Threw ''offline''" "Threw ''offline''" Map.empty "Threw ''offline''"]
  show ?thesis using h1 h2 h3
    by (elim conjE exE) (intro conjI exI; assumption)
qed

subsection \<open>C5: what the search forms reject\<close>

text \<open>
  C5 as stated fails: a \<open>product_ids\<close> text made of commas and blanks holds no
  identifier, yet \<open>handleSubmit\<close> of VectorSearch sends it.
\<close>

theorem C5_counterexample:
  "spec_product_ids '', ,'' = []
   \<and> map params (snd (VectorSearch_handleSubmit offline vs_page_commas))
       = [[(''question'', ''what is a join?''), (''product_ids'', '', ,''), (''n'', ''5'')]]"
  by (simp add: spec_product_ids_def trim_def js_whitespace_def VectorSearch_handleSubmit_def
      vs_page_commas_def vs_initial_def offline_def VectorSearch_request_def Let_def)

text \<open>
  C5, amended.  VectorSearch rejects, without a request, a question that is empty or
  blank (message \<open>Error: Please enter a search question\<close>) and then a \<open>product_ids\<close>
  text that is empty or blank (\<open>Error: Please enter at least one product ID\<close>); any
  other \<open>product_ids\<close> text is sent unchanged in the one request, not split at commas.
  SearchDigitalProduct rejects an empty or blank query in the same way.
\<close>

theorem C5_blank_fields_rejected:
  "(trim (question (formData st)) = [] \<longrightarrow>
      VectorSearch_handleSubmit fetch st =
        (st\<lparr>loading := False, message := ''Error: Please enter a search question'',
            responseData := None\<rparr>, []))
   \<and> (trim (question (formData st)) \<noteq> [] \<and> trim (product_ids (formData st)) = [] \<longrightarrow>
      VectorSearch_handleSubmit fetch st =
        (st\<lparr>loading := False, message := ''Error: Please enter at least one product ID'',
            responseData := None\<rparr>, []))
   \<and> (trim (question (formData st)) \<noteq> [] \<and> trim (product_ids (formData st)) \<noteq> [] \<longrightarrow>
      map params (snd (VectorSearch_handleSubmit fetch st)) =
        [[(''question'', question (formData st)), (''product_ids'', product_ids (formData st)),
          (''n'', n_value (formData st))]])
   \<and> (trim (searchQuery (formData sst)) = [] \<longrightarrow>
      handleSearch fetch' sst =
        (sst\<lparr>loading := False, message := ''Error: Please enter a search query'',
            responseData := None\<rparr>, []))"
  by (simp add: VectorSearch_handleSubmit_def handleSearch_def VectorSearch_request_def Let_def
      split: reply.split)

theorem C5_witness:
  "trim (question (formData vs_page_no_question)) = []
   \<and> snd (VectorSearch_handleSubmit found_two vs_page_no_question) = []
   \<and> trim (question (formData vs_page_blank_ids)) \<noteq> []
   \<and> trim (product_ids (formData vs_page_blank_ids)) = []
   \<and> snd (VectorSearch_handleSubmit found_two vs_page_blank_ids) = []
   \<and> trim (question (formData vs_page1)) \<noteq> [] \<and> trim (product_ids (formData vs_page1)) \<noteq> []
   \<and> map params (snd (VectorSearch_handleSubmit found_two vs_page1))
       = [[(''question'', ''what is a join?''), (''product_ids'', ''1,2''), (''n'', ''5'')]]
   \<and> trim (searchQuery (formData sd_page_blank)) = []
   \<and> snd (handleSearch found_two sd_page_blank) = []"
proof -
  have h1: "trim (question (formData vs_page_no_question)) = []"
    by (simp add: vs_page_no_question_def trim_def)
  have h2: "trim (question (formData vs_page_blank_ids)) \<noteq> []"
    "trim (product_ids (formData vs_page_blank_ids)) = []"
    by (simp_all add: vs_page_blank_ids_def trim_def js_whitespace_def)
  have h3: "trim (question (formData vs_page1)) \<noteq> []" "trim (product_ids (formData vs_page1)) \<noteq> []"
    by (simp_all add: vs_page1_def trim_def js_whitespace_def)
  have h4: "trim (searchQuery (formData sd_page_blank)) = []"
    by (simp add: sd_page_blank_def trim_def js_whitespace_def)
  have f: "formData vs_page1
      = \<lparr>question = ''what is a join?'', product_ids = ''1,2'', n_value = ''5''\<rparr>"
    by (simp add: vs_page1_def)
  from C5_blank_fields_rejected [of vs_page_no_question found_two sd_page_blank found_two] h1 h4
  have a: "snd (VectorSearch_handleSubmit found_two vs_page_no_question) = []"
    "snd (handleSearch found_two sd_page_blank) = []"
    by simp_all
  from C5_blank_fields_rejected [of vs_page_blank_ids found_two sd_page_blank found_two] h2
  have b: "snd (VectorSearch_handleSubmit found_two vs_page_blank_ids) = []"
    by simp
  from C5_blank_fields_rejected [of vs_page1 found_two sd_page_blank found_two] h3
  have c: "map params (snd (VectorSearch_handleSubmit found_two vs_page1))
       = [[(''question'', ''what is a join?''), (''product_ids'', ''1,2''), (''n'', ''5'')]]"
    by (simp add: f)
  from h1 h2 h3 h4 a b c show ?thesis by simp
qed

subsection \<open>C6: the number of results\<close>

text \<open>
  C6 fails on SearchDigitalProduct.  Its number input is not \<open>required\<close>, unlike the
  one of VectorSearch, so the browser lets the form submit with the input emptied.  The
  \<open>onChange\<close> handler has then stored \<open>parseInt('')\<close>, which is \<open>NaN\<close>, and
  \<open>handleSearch\<close> sends the request with \<open>n=NaN\<close>: a text that is no number from 1 to
  50 is sent, not rejected.
\<close>

theorem C6_empty_limit_sent_as_NaN:
  "\<not> value_missing numResults_input '''' \<and> value_missing n_input ''''
   \<and> parseInt '''' = NaN
   \<and> map params (snd (handleSearch offline
         (numResults_onChange '''' (setSearchQuery ''python'' (sd_initial :: string sd_page)))))
       = [[(''query'', ''python''), (''n'', ''NaN'')]]
   \<and> \<not> spec_limit_in_range 50 ''NaN''"
proof (intro conjI)
  show "\<not> value_missing numResults_input ''''"
    by (simp add: value_missing_def numResults_input_def)
  show "value_missing n_input ''''"
    by (simp add: value_missing_def n_input_def)
  show "parseInt '''' = NaN"
    by (simp add: parseInt_def)
  show "map params (snd (handleSearch offline
       (numResults_onChange '''' (setSearchQuery ''python'' (sd_initial :: string sd_page)))))
     = [[(''query'', ''python''), (''n'', ''NaN'')]]"
    by (simp add: handleSearch_def numResults_onChange_def setSearchQuery_def sd_initial_def
        offline_def SearchDigitalProduct_request_def Let_def trim_def js_whitespace_def
        parseInt_def toString_def)
  show "\<not> spec_limit_in_range 50 ''NaN''"
    by (auto simp: spec_limit_in_range_def NaN_not_numeral [symmetric])
qed

subsection \<open>C7: rank is the position in the response\<close>

text \<open>
  C7.  After a successful search both pages render the results in the order of the
  response array, and the rank shown for the result at position \<open>i\<close> (from 0) is
  \<open>i + 1\<close>; nothing is sorted or scored again.  (SearchDigitalProduct renders nothing
  at all for an empty array.)
\<close>

theorem C7_rank_is_position:
  assumes "trim (searchQuery (formData st)) \<noteq> []"
    and "fetch (SearchDigitalProduct_request (formData st)) = Parsed d"
    and "success d" and "results (members d) = Some rs"
    and "trim (question (formData vst)) \<noteq> []" and "trim (product_ids (formData vst)) \<noteq> []"
    and "fetch' (VectorSearch_request (formData vst)) = Parsed d'"
    and "success d'" and "results (members d') = Some rs'"
  shows "(case SearchDigitalProduct_renderResults (fst (handleSearch fetch st)) of
            None \<Rightarrow> rs = []
          | Some cards \<Rightarrow>
              map card_result cards = rs \<and> map card_rank cards = [1..<Suc (length rs)])
       \<and> (\<exists>cards. VectorSearch_renderResults (fst (VectorSearch_handleSubmit fetch' vst)) = Some cards
             \<and> map card_result cards = rs' \<and> map card_rank cards = [1..<Suc (length rs')])"
proof
  show "case SearchDigitalProduct_renderResults (fst (handleSearch fetch st)) of
            None \<Rightarrow> rs = []
          | Some cards \<Rightarrow>
              map card_result cards = rs \<and> map card_rank cards = [1..<Suc (length rs)]"
    using assms(4) cards_result [of rs] cards_rank [of rs]
    by (simp add: handleSearch_success [where fetch = fetch, OF assms(1-3)]
        SearchDigitalProduct_renderResults_def)
  show "\<exists>cards. VectorSearch_renderResults (fst (VectorSearch_handleSubmit fetch' vst)) = Some cards
             \<and> map card_result cards = rs' \<and> map card_rank cards = [1..<Suc (length rs')]"
    using assms(9) cards_result [of rs'] cards_rank [of rs']
    by (simp add: VectorSearch_handleSubmit_success [where fetch = fetch', OF assms(5-8)]
        VectorSearch_renderResults_def)
qed

theorem C7_witness:
  "trim (searchQuery (formData sd_page1)) \<noteq> []
   \<and> found_two (SearchDigitalProduct_request (formData sd_page1)) = Parsed found_two_body
   \<and> success found_two_body \<and> results (members found_two_body) = Some [''b'', ''a'']
   \<and> trim (question (formData vs_page1)) \<noteq> [] \<and> trim (product_ids (formData vs_page1)) \<noteq> []
   \<and> found_two (VectorSearch_request (formData vs_page1)) = Parsed found_two_body
   \<and> (case SearchDigitalProduct_renderResults (fst (handleSearch found_two sd_page1)) of
         None \<Rightarrow> [''b'', ''a''] = ([] :: string list)
       | Some cards \<Rightarrow> map card_result cards = [''b'', ''a''] \<and> map card_rank cards = [1, 2])
   \<and> (\<exists>cards. VectorSearch_renderResults (fst (VectorSearch_handleSubmit found_two vs_page1))
                  = Some cards
         \<and> map card_result cards = [''b'', ''a''] \<and> map card_rank cards = [1, 2])"
proof -
  have h1: "trim (searchQuery (formData sd_page1)) \<noteq> []"
    by (simp add: sd_page1_def trim_def js_whitespace_def)
  have h2: "found_two (SearchDigitalProduct_request (formData sd_page1)) = Parsed found_two_body"
    by (simp add: found_two_def)
  have h3: "success found_two_body" and h4: "results (members found_two_body) = Some [''b'', ''a'']"
    by (simp_all add: found_two_body_def)
  have h5: "trim (question (formData vs_page1)) \<noteq> []"
    and h6: "trim (product_ids (formData vs_page1)) \<noteq> []"
    by (simp_all add: vs_page1_def trim_def js_whitespace_def)
  have h7: "found_two (VectorSearch_request (formData vs_page1)) = Parsed found_two_body"
    by (simp add: found_two_def)
  have u: "[1..<Suc (length [''b'', ''a''])] = [1, 2]"
    by (simp add: upt_rec)
  from C7_rank_is_position [where fetch = found_two and fetch' = found_two,
      OF h1 h2 h3 h4 h5 h6 h7 h3 h4]
  show ?thesis unfolding u using h1 h2 h3 h4 h5 h6 h7 by simp
qed

subsection \<open>C8: no result is not a failure\<close>

text \<open>
  C8.  For every query that is not blank, a body with \<open>success = true\<close> and an empty
  \<open>results\<close> array leaves either search page with its \<open>Found n ...\<close> message in the
  informational tone and the body kept in \<open>searchResults\<close>, with no result rendered;
  a body with \<open>success = false\<close> leaves it with an \<open>Error: \<close> message in the error
  tone and \<open>searchResults\<close> empty.  The two messages differ.  The \<open>n\<close> of the
  message is \<open>total_results\<close> as a Number prints it, which below \<open>2^53\<close> in
  absolute value is its decimal numeral.
\<close>

theorem C8_empty_results_not_an_error:
  assumes "trim (searchQuery (formData st)) \<noteq> []"
    and "fetch1 (SearchDigitalProduct_request (formData st)) = Parsed d1"
    and "success d1" and "results (members d1) = Some []"
    and "fetch2 (SearchDigitalProduct_request (formData st)) = Parsed d2"
    and "\<not> success d2"
    and "trim (question (formData vst)) \<noteq> []" and "trim (product_ids (formData vst)) \<noteq> []"
    and "fetch3 (VectorSearch_request (formData vst)) = Parsed d3"
    and "success d3" and "results (members d3) = Some []"
    and "fetch4 (VectorSearch_request (formData vst)) = Parsed d4"
    and "\<not> success d4"
  shows "SearchDigitalProduct_tone (message (fst (handleSearch fetch1 st))) = Informational
       \<and> message (fst (handleSearch fetch1 st))
            = ''Found '' @ toString (number_of_int (total_results (members d1)))
                @ '' digital products matching your search''
       \<and> responseData (fst (handleSearch fetch1 st)) = Some d1
       \<and> SearchDigitalProduct_renderResults (fst (handleSearch fetch1 st)) = None
       \<and> SearchDigitalProduct_tone (message (fst (handleSearch fetch2 st))) = ErrorTone
       \<and> responseData (fst (handleSearch fetch2 st)) = None
       \<and> message (fst (handleSearch fetch1 st)) \<noteq> message (fst (handleSearch fetch2 st))
       \<and> VectorSearch_tone (message (fst (VectorSearch_handleSubmit fetch3 vst))) = Informational
       \<and> responseData (fst (VectorSearch_handleSubmit fetch3 vst)) = Some d3
       \<and> VectorSearch_renderResults (fst (VectorSearch_handleSubmit fetch3 vst)) = Some []
       \<and> VectorSearch_tone (message (fst (VectorSearch_handleSubmit fetch4 vst))) = ErrorTone
       \<and> responseData (fst (VectorSearch_handleSubmit fetch4 vst)) = None
       \<and> message (fst (VectorSearch_handleSubmit fetch3 vst))
            \<noteq> message (fst (VectorSearch_handleSubmit fetch4 vst))
       \<and> (\<bar>total_results (members d1)\<bar> < 2 ^ 53 \<longrightarrow>
            message (fst (handleSearch fetch1 st))
              = ''Found '' @ string_of_int (total_results (members d1))
                  @ '' digital products matching your search'')"
proof -
  have sd: "SearchDigitalProduct_tone (message (fst (handleSearch fetch1 st))) = Informational
       \<and> message (fst (handleSearch fetch1 st))
            = ''Found '' @ toString (number_of_int (total_results (members d1)))
                @ '' digital products matching your search''
       \<and> responseData (fst (handleSearch fetch1 st)) = Some d1
       \<and> SearchDigitalProduct_renderResults (fst (handleSearch fetch1 st)) = None
       \<and> SearchDigitalProduct_tone (message (fst (handleSearch fetch2 st))) = ErrorTone
       \<and> responseData (fst (handleSearch fetch2 st)) = None
       \<and> message (fst (handleSearch fetch1 st)) \<noteq> message (fst (handleSearch fetch2 st))"
    using assms(4) found_message_tone [of "number_of_int (total_results (members d1))"]
    by (simp add: handleSearch_success [where fetch = fetch1, OF assms(1-3)]
        handleSearch_failure [where fetch = fetch2, OF assms(1,5,6)]
        SearchDigitalProduct_tone_def SearchDigitalProduct_renderResults_def)
  have s3: "fst (VectorSearch_handleSubmit fetch3 vst)
      = vst\<lparr>message := ''Found '' @ toString (number_of_int (total_results (members d3)))
                           @ '' results for your search'',
            responseData := Some d3, loading := False\<rparr>"
    by (simp add: VectorSearch_handleSubmit_success [where fetch = fetch3, OF assms(7-10)])
  have s4: "fst (VectorSearch_handleSubmit fetch4 vst)
      = vst\<lparr>message := ''Error: '' @ or_else (resp_message d4) ''Search failed'',
            responseData := None, loading := False\<rparr>"
    by (simp add: VectorSearch_handleSubmit_failure [where fetch = fetch4, OF assms(7,8,12,13)])
  have t3: "VectorSearch_tone (message (fst (VectorSearch_handleSubmit fetch3 vst))) = Informational"
    unfolding s3 using found_results_tone [of "number_of_int (total_results (members d3))"]
    by (simp del: append.simps)
  have t4: "VectorSearch_tone (message (fst (VectorSearch_handleSubmit fetch4 vst))) = ErrorTone"
    unfolding s4 using error_prefix_tone [of "or_else (resp_message d4) ''Search failed''"]
    by (simp del: append.simps)
  have r3: "VectorSearch_renderResults (fst (VectorSearch_handleSubmit fetch3 vst)) = Some []"
    unfolding s3 using assms(11) by (simp add: VectorSearch_renderResults_def)
  have m: "message (fst (VectorSearch_handleSubmit fetch3 vst))
            \<noteq> message (fst (VectorSearch_handleSubmit fetch4 vst))"
    unfolding s3 s4 by simp
  have o: "responseData (fst (VectorSearch_handleSubmit fetch3 vst)) = Some d3"
    "responseData (fst (VectorSearch_handleSubmit fetch4 vst)) = None"
    unfolding s3 s4 by simp_all
  have safe: "\<bar>total_results (members d1)\<bar> < 2 ^ 53 \<longrightarrow>
            message (fst (handleSearch fetch1 st))
              = ''Found '' @ string_of_int (total_results (members d1))
                  @ '' digital products matching your search''"
    using sd by (simp add: toString_safe)
  from sd t3 t4 r3 m o safe show ?thesis
    by (elim conjE) (intro conjI; assumption)
qed

theorem C8_witness:
  "trim (searchQuery (formData sd_page1)) \<noteq> []
   \<and> found_none (SearchDigitalProduct_request (formData sd_page1)) = Parsed found_none_body
   \<and> success found_none_body \<and> results (members found_none_body) = Some []
   \<and> search_failed (SearchDigitalProduct_request (formData sd_page1)) = Parsed search_failed_body
   \<and> \<not> success search_failed_body
   \<and> trim (question (formData vs_page1)) \<noteq> [] \<and> trim (product_ids (formData vs_page1)) \<noteq> []
   \<and> found_none (VectorSearch_request (formData vs_page1)) = Parsed found_none_body
   \<and> search_failed (VectorSearch_request (formData vs_page1)) = Parsed search_failed_body
   \<and> SearchDigitalProduct_tone (message (fst (handleSearch found_none sd_page1))) = Informational
   \<and> message (fst (handleSearch found_none sd_page1))
        = ''Found 0 digital products matching your search''
   \<and> SearchDigitalProduct_tone (message (fst (handleSearch search_failed sd_page1))) = ErrorTone
   \<and> responseData (fst (handleSearch search_failed sd_page1)) = None
   \<and> VectorSearch_tone (message (fst (VectorSearch_handleSubmit found_none vs_page1)))
        = Informational
   \<and> VectorSearch_tone (message (fst (VectorSearch_handleSubmit search_failed vs_page1)))
        = ErrorTone"
proof -
  have h1: "trim (searchQuery (formData sd_page1)) \<noteq> []"
    by (simp add: sd_page1_def trim_def js_whitespace_def)
  have h2: "found_none (SearchDigitalProduct_request (formData sd_page1)) = Parsed found_none_body"
    by (simp add: found_none_def)
  have h3: "success found_none_body" and h4: "results (members found_none_body) = Some []"
    by (simp_all add: found_none_body_def)
  have h5: "search_failed (SearchDigitalProduct_request (formData sd_page1))
      = Parsed search_failed_body"
    by (simp add: search_failed_def)
  have h6: "\<not> success search_failed_body"
    by (simp add: search_failed_body_def)
  have h7: "trim (question (formData vs_page1)) \<noteq> []"
    and h8: "trim (product_ids (formData vs_page1)) \<noteq> []"
    by (simp_all add: vs_page1_def trim_def js_whitespace_def)
  have h9: "found_none (VectorSearch_request (formData vs_page1)) = Parsed found_none_body"
    by (simp add: found_none_def)
  have h10: "search_failed (VectorSearch_request (formData vs_page1)) = Parsed search_failed_body"
    by (simp add: search_failed_def)
  have b: "\<bar>total_results (members found_none_body)\<bar> < 2 ^ 53"
    by (simp add: found_none_body_def)
  have "string_of_int (total_results (members found_none_body)) = ''0''"
    unfolding found_none_body_def by code_simp
  with toString_safe [OF b]
  have z: "toString (number_of_int (total_results (members found_none_body))) = ''0''"
    by simp
  from C8_empty_results_not_an_error [where ?fetch1.0 = found_none and ?fetch2.0 = search_failed
      and ?fetch3.0 = found_none and ?fetch4.0 = search_failed,
      OF h1 h2 h3 h4 h5 h6 h7 h8 h9 h3 h4 h10 h6]
  show ?thesis unfolding z using h1 h2 h3 h4 h5 h6 h7 h8 h9 h10
    by (elim conjE) (intro conjI; (assumption | simp))
qed

end
